theory Spec2Isabelle
  imports Complex_Main "HOL-Library.Word"
begin

section \<open>Numbers, coordinates, colours and errors\<close>

text \<open>
  A JavaScript \<^verbatim>\<open>number\<close> holding a coordinate, a step or an opacity is a HOL real,
  and comparison is the comparison of the values. The result of \<open>+\<close>, \<open>-\<close> and \<open>*\<close> on
  numbers is rounded to a double: the functions below that do arithmetic take the
  rounding as their first argument \<open>rnd\<close>, which is \<open>binary64\<close> for the program as it
  runs and \<open>exact\<close> for arithmetic without rounding. The not-a-number, the infinities,
  overflow and subnormal numbers are not represented. Array lengths and loop indices
  are naturals. A colour component is an integer (the data model's colour is four
  integers); \<^verbatim>\<open>Uint8Array\<close> stores it modulo 256, as an 8-bit word.
\<close>

text \<open>Rounding to the nearest integer, a tie to the even one.\<close>

definition rne :: "real \<Rightarrow> int" where
  "rne t =
     (let f = \<lfloor>t\<rfloor> in
      if t - of_int f < 1 / 2 then f
      else if t - of_int f > 1 / 2 then f + 1
      else if even f then f else f + 1)"

text \<open>
  Rounding to the nearest binary floating-point number with a significand of \<open>p\<close>
  bits (IEEE 754, round to nearest, ties to even; the exponent is not bounded).
\<close>

definition round_to :: "nat \<Rightarrow> real \<Rightarrow> real" where
  "round_to p v =
     (if v = 0 then 0
      else (let e = \<lfloor>log 2 \<bar>v\<bar>\<rfloor> - int p + 1
            in of_int (rne (v / 2 powr of_int e)) * 2 powr of_int e))"

text \<open>Doubles, the numbers of JavaScript; and the 32-bit floats of GL uniforms.\<close>

definition binary64 :: "real \<Rightarrow> real" where
  "binary64 = round_to 53"

definition float32 :: "real \<Rightarrow> real" where
  "float32 = round_to 24"

definition exact :: "real \<Rightarrow> real" where
  "exact v = v"

record LngLat =
  lng :: real
  lat :: real

text \<open>\<^verbatim>\<open>{ x, y }\<close> objects: a \<^verbatim>\<open>MercatorCoordinate\<close>, \<^verbatim>\<open>gridSize\<close>, \<^verbatim>\<open>size\<close>.\<close>

record 'n vec2 =
  x :: 'n
  y :: 'n

type_synonym MercatorCoordinate = "real vec2"

text \<open>\<^verbatim>\<open>type RGBA = [number, number, number, number]\<close>\<close>

type_synonym RGBA = "int \<times> int \<times> int \<times> int"

fun rgba_items :: "RGBA \<Rightarrow> int list" where
  "rgba_items (r, g, b, a) = [r, g, b, a]"

text \<open>
  What the code throws: \<open>Error msg\<close> is \<^verbatim>\<open>new Error(msg)\<close>; \<open>TypeError\<close> is the
  engine's error on reading a property of, or spreading, \<^verbatim>\<open>undefined\<close>;
  \<open>ColorMatrixSizeError e a\<close> is the \<^verbatim>\<open>Error\<close> of the size check in \<^verbatim>\<open>onAdd\<close>, whose
  message interpolates the expected size \<open>e\<close> and the actual size \<open>a\<close>.
\<close>

datatype error =
    Error string
  | TypeError
  | ColorMatrixSizeError nat nat

section \<open>Arrays\<close>

text \<open>
  An index below the length of a JavaScript array holds an element or is a hole (as
  index 1 of \<^verbatim>\<open>[a, , b]\<close>). Reading a hole gives \<^verbatim>\<open>undefined\<close>; \<^verbatim>\<open>every\<close> and \<^verbatim>\<open>map\<close> do
  not call their callback on a hole, and \<^verbatim>\<open>map\<close> leaves the hole in its result.
\<close>

datatype 'v slot = Hole | Has 'v

text \<open>Reading \<^verbatim>\<open>xs[i]\<close>: \<^verbatim>\<open>undefined\<close> at a hole and past the end.\<close>

definition elem :: "'v slot list \<Rightarrow> nat \<Rightarrow> 'v option" where
  "elem xs i =
     (if i < length xs then (case xs ! i of Hole \<Rightarrow> None | Has v \<Rightarrow> Some v) else None)"

text \<open>The elements a \<^verbatim>\<open>map\<close> visits, in order.\<close>

definition present :: "'v slot list \<Rightarrow> 'v list" where
  "present xs = concat (map (\<lambda>s. case s of Hole \<Rightarrow> [] | Has v \<Rightarrow> [v]) xs)"

text \<open>An array with no hole, and a grid of such rows.\<close>

definition array :: "'v list \<Rightarrow> 'v slot list" where
  "array vs = map Has vs"

definition grid :: "'v list list \<Rightarrow> 'v slot list option slot list" where
  "grid rows = array (map (\<lambda>r. Some (array r)) rows)"

text \<open>
  \<^verbatim>\<open>Array.prototype.every\<close> with a callback that may throw: the elements are visited
  in order, holes are passed over, the first \<^verbatim>\<open>false\<close> ends the visit, an exception
  leaves it.
\<close>

fun every :: "('r \<Rightarrow> error + bool) \<Rightarrow> 'r slot list \<Rightarrow> error + bool" where
  "every f [] = Inr True"
| "every f (Hole # rs) = every f rs"
| "every f (Has r # rs) =
     (case f r of
        Inl e \<Rightarrow> Inl e
      | Inr b \<Rightarrow> if b then every f rs else Inr False)"

text \<open>\<^verbatim>\<open>Array.prototype.map\<close> with a callback that may throw.\<close>

fun mapA :: "('p \<Rightarrow> error + 'q) \<Rightarrow> 'p slot list \<Rightarrow> error + 'q slot list" where
  "mapA f [] = Inr []"
| "mapA f (Hole # ps) = (case mapA f ps of Inl e \<Rightarrow> Inl e | Inr qs \<Rightarrow> Inr (Hole # qs))"
| "mapA f (Has p # ps) =
     (case f p of
        Inl e \<Rightarrow> Inl e
      | Inr q \<Rightarrow> (case mapA f ps of Inl e \<Rightarrow> Inl e | Inr qs \<Rightarrow> Inr (Has q # qs)))"

text \<open>
  A callback that may throw, called on each element of a list in order (a \<^verbatim>\<open>for\<close>
  loop over indices, or the elements a \<^verbatim>\<open>map\<close> visits), with the results collected.
\<close>

fun mapE :: "('p \<Rightarrow> error + 'q) \<Rightarrow> 'p list \<Rightarrow> error + 'q list" where
  "mapE f [] = Inr []"
| "mapE f (p # ps) =
     (case f p of
        Inl e \<Rightarrow> Inl e
      | Inr q \<Rightarrow> (case mapE f ps of Inl e \<Rightarrow> Inl e | Inr qs \<Rightarrow> Inr (q # qs)))"

section \<open>Validation: \<^verbatim>\<open>verifyOptions\<close> (layer.ts)\<close>

text \<open>
  \<^verbatim>\<open>interface IChoroplethGridLayerOptions<T>\<close>. An element of \<^verbatim>\<open>dataGrid\<close> is
  \<open>Some cells\<close>, or \<open>None\<close> for an element that is \<^verbatim>\<open>undefined\<close> (the validation tests
  for it).
\<close>

record 'a IChoroplethGridLayerOptions =
  dataGrid :: "'a slot list option slot list"
  getColor :: "'a \<Rightarrow> RGBA"
  stepSize :: LngLat
  offset :: LngLat
  opacity :: real
  layerId :: "string option"

text \<open>
  \<^verbatim>\<open>row => row.length === dataArray[0]?.length\<close>: reading \<^verbatim>\<open>length\<close> of an undefined row
  throws; \<^verbatim>\<open>dataArray[0]?.length\<close> is \<^verbatim>\<open>undefined\<close> when \<^verbatim>\<open>dataArray[0]\<close> is, and no
  length is strictly equal to it. The length of an array counts its holes.
\<close>

definition rowLengthMatches ::
    "'a slot list option slot list \<Rightarrow> 'a slot list option \<Rightarrow> error + bool" where
  "rowLengthMatches dataArray row =
     (case row of
        None \<Rightarrow> Inl TypeError
      | Some r \<Rightarrow>
          Inr (case elem dataArray 0 of
                 Some (Some r0) \<Rightarrow> length r = length r0
               | _ \<Rightarrow> False))"

definition rowDefined :: "'a slot list option \<Rightarrow> error + bool" where
  "rowDefined row = Inr (row \<noteq> None)"

definition verifyOptions :: "'a IChoroplethGridLayerOptions \<Rightarrow> error + unit" where
  "verifyOptions options =
     (if lat (offset options) < -90 \<or> lat (offset options) > 90 then
        Inl (Error ''Offset latitude must be between -90 and 90.'')
      else if lng (offset options) < -180 \<or> lat (offset options) > 180 then
        Inl (Error ''Offset longitude must be between -180 and 180.'')
      else if lat (stepSize options) \<le> 0 \<or> lat (stepSize options) > 180 then
        Inl (Error ''Step size latitude must be greater than 0 and less than or equal to 180.'')
      else if lng (stepSize options) \<le> 0 \<or> lng (stepSize options) > 360 then
        Inl (Error ''Step size must be greater than 0 and less than or equal to 360.'')
      else
        (case every (rowLengthMatches (dataGrid options)) (dataGrid options) of
           Inl e \<Rightarrow> Inl e
         | Inr uniform \<Rightarrow>
             if \<not> uniform then Inl (Error ''Data array dimensions are not uniform.'')
             else
               (case every rowDefined (dataGrid options) of
                  Inl e \<Rightarrow> Inl e
                | Inr defined \<Rightarrow>
                    if \<not> defined then Inl (Error ''A row in the data grid is undefined.'')
                    else if opacity options < 0 \<or> opacity options > 1 then
                      Inl (Error ''Opacity must be greater than or equal to 0 and less than or equal to 1.'')
                    else Inr ())))"

section \<open>Construction: \<^verbatim>\<open>createLayer\<close> (layer.ts)\<close>

text \<open>The callback of the inner \<^verbatim>\<open>map\<close>: the colour of a cell, checked.\<close>

definition cellColor :: "('a \<Rightarrow> RGBA) \<Rightarrow> 'a \<Rightarrow> error + RGBA" where
  "cellColor gc p =
     (let color = gc p in
      if \<not> list_all (\<lambda>c. c \<ge> 0 \<and> c \<le> 255) (rgba_items color) then
        Inl (Error ''Color values must be between 0 and 255.'')
      else Inr color)"

text \<open>The callback of the outer \<^verbatim>\<open>map\<close>; \<^verbatim>\<open>row.map\<close> on an undefined row throws.\<close>

definition rowColors :: "('a \<Rightarrow> RGBA) \<Rightarrow> 'a slot list option \<Rightarrow> error + RGBA slot list" where
  "rowColors gc row =
     (case row of None \<Rightarrow> Inl TypeError | Some r \<Rightarrow> mapA (cellColor gc) r)"

text \<open>
  ``Find grid dimensions'': \<^verbatim>\<open>gridSize.y\<close> is \<^verbatim>\<open>colorGrid[0].length\<close> when the grid has a
  length, and reading the length throws when \<^verbatim>\<open>colorGrid[0]\<close> is undefined.
\<close>

definition gridDimensions :: "RGBA slot list slot list \<Rightarrow> error + nat vec2" where
  "gridDimensions cg =
     (if length cg > 0 then
        (case elem cg 0 of
           None \<Rightarrow> Inl TypeError
         | Some firstRow \<Rightarrow> Inr \<lparr>x = length cg, y = length firstRow\<rparr>)
      else Inr \<lparr>x = length cg, y = 0\<rparr>)"

record Bounds =
  sw :: LngLat
  ne :: LngLat

record BoundsMercator =
  bottomLeft :: MercatorCoordinate
  topLeft :: MercatorCoordinate
  bottomRight :: MercatorCoordinate
  topRight :: MercatorCoordinate
  bsize :: "real vec2"

text \<open>``Calculate bounds of dataset in world space''.\<close>

definition dataBounds ::
    "(real \<Rightarrow> real) \<Rightarrow> 'a IChoroplethGridLayerOptions \<Rightarrow> nat vec2 \<Rightarrow> Bounds" where
  "dataBounds rnd options gs =
     \<lparr>sw = \<lparr>lng = lng (offset options), lat = lat (offset options)\<rparr>,
      ne = \<lparr>lng = rnd (lng (offset options) + rnd (real (x gs) * lng (stepSize options))),
            lat = rnd (lat (offset options) + rnd (real (y gs) * lat (stepSize options)))\<rparr>\<rparr>"

text \<open>
  ``Calculate bounds of dataset in Mercator space''. \<open>fromLngLat\<close> is
  \<^verbatim>\<open>MercatorCoordinate.fromLngLat\<close> of mapbox-gl, a parameter of the model: a call
  returns a coordinate or throws.
\<close>

definition boundsMercator ::
    "(real \<Rightarrow> real) \<Rightarrow> (LngLat \<Rightarrow> error + MercatorCoordinate) \<Rightarrow> Bounds \<Rightarrow> error + BoundsMercator" where
  "boundsMercator rnd fromLngLat b =
     (case fromLngLat (sw b) of
        Inl e \<Rightarrow> Inl e
      | Inr p_bl \<Rightarrow>
     (case fromLngLat \<lparr>lng = lng (sw b), lat = lat (ne b)\<rparr> of
        Inl e \<Rightarrow> Inl e
      | Inr p_tl \<Rightarrow>
     (case fromLngLat \<lparr>lng = lng (ne b), lat = lat (sw b)\<rparr> of
        Inl e \<Rightarrow> Inl e
      | Inr p_br \<Rightarrow>
     (case fromLngLat (ne b) of
        Inl e \<Rightarrow> Inl e
      | Inr p_tr \<Rightarrow>
          Inr \<lparr>bottomLeft = p_bl, topLeft = p_tl, bottomRight = p_br, topRight = p_tr,
               bsize = \<lparr>x = rnd (x p_br - x p_tl), y = rnd (y p_br - y p_tl)\<rparr>\<rparr>))))"

text \<open>
  The loop \<^verbatim>\<open>for(let lat = ne.lat; lat >= sw.lat; lat -= stepSize.lat)\<close>, with the
  array it pushes to as accumulator. The loop has no bound of its own: where it never
  ends, the value is \<open>None\<close> (the engine's limit on the size of an array is not
  represented).
\<close>

partial_function (option) latStepsLoop ::
    "(real \<Rightarrow> real) \<Rightarrow> (LngLat \<Rightarrow> error + MercatorCoordinate) \<Rightarrow> real \<Rightarrow> real \<Rightarrow> real \<Rightarrow> real list
      \<Rightarrow> (error + real list) option" where
  "latStepsLoop rnd fromLngLat lt south step acc =
     (if lt \<ge> south then
        (case fromLngLat \<lparr>lng = 0, lat = lt\<rparr> of
           Inl e \<Rightarrow> Some (Inl e)
         | Inr mercatorCoordinates \<Rightarrow>
             latStepsLoop rnd fromLngLat (rnd (lt - step)) south step
               (acc @ [y mercatorCoordinates]))
      else Some (Inr acc))"

text \<open>``Calculate a single step in Mercator space'': the function called in place.\<close>

definition lngStep ::
    "(real \<Rightarrow> real) \<Rightarrow> (LngLat \<Rightarrow> error + MercatorCoordinate) \<Rightarrow> Bounds \<Rightarrow> LngLat \<Rightarrow> error + real" where
  "lngStep rnd fromLngLat b step =
     (case fromLngLat (sw b) of
        Inl e \<Rightarrow> Inl e
      | Inr a \<Rightarrow>
     (case fromLngLat \<lparr>lng = rnd (lng (sw b) + lng step), lat = lat (sw b)\<rparr> of
        Inl e \<Rightarrow> Inl e
      | Inr b' \<Rightarrow> Inr (rnd (x b' - x a))))"

text \<open>
  The handle \<^verbatim>\<open>createLayer\<close> returns: \<^verbatim>\<open>id\<close> and \<^verbatim>\<open>type\<close>, and the values its two hooks
  close over.
\<close>

record CustomLayer =
  layer_id :: string
  layer_type :: string
  colorGrid :: "RGBA slot list slot list"
  gridSize :: "nat vec2"
  dataBoundsMercator :: BoundsMercator
  latStepsMercator :: "real list"
  lngStepMercator :: real
  layer_opacity :: real

definition createLayer ::
    "(real \<Rightarrow> real) \<Rightarrow> (LngLat \<Rightarrow> error + MercatorCoordinate) \<Rightarrow> 'a IChoroplethGridLayerOptions
      \<Rightarrow> (error + CustomLayer) option" where
  "createLayer rnd fromLngLat options =
     (case verifyOptions options of
        Inl e \<Rightarrow> Some (Inl e)
      | Inr _ \<Rightarrow>
     (case mapA (rowColors (getColor options)) (dataGrid options) of
        Inl e \<Rightarrow> Some (Inl e)
      | Inr cg \<Rightarrow>
     (case gridDimensions cg of
        Inl e \<Rightarrow> Some (Inl e)
      | Inr gs \<Rightarrow>
     (case boundsMercator rnd fromLngLat (dataBounds rnd options gs) of
        Inl e \<Rightarrow> Some (Inl e)
      | Inr dbm \<Rightarrow>
     (case latStepsLoop rnd fromLngLat (lat (ne (dataBounds rnd options gs)))
             (lat (sw (dataBounds rnd options gs))) (lat (stepSize options)) [] of
        None \<Rightarrow> None
      | Some (Inl e) \<Rightarrow> Some (Inl e)
      | Some (Inr steps) \<Rightarrow>
     (case lngStep rnd fromLngLat (dataBounds rnd options gs) (stepSize options) of
        Inl e \<Rightarrow> Some (Inl e)
      | Inr ls \<Rightarrow>
          Some (Inr
            \<lparr>layer_id = (case layerId options of None \<Rightarrow> ''choropleth_grid'' | Some s \<Rightarrow> s),
             layer_type = ''custom'',
             colorGrid = cg,
             gridSize = gs,
             dataBoundsMercator = dbm,
             latStepsMercator = steps,
             lngStepMercator = ls,
             layer_opacity = opacity options\<rparr>)))))))"

section \<open>Setup hook: \<^verbatim>\<open>onAdd\<close> (layer.ts) and the GL helpers\<close>

text \<open>
  \<^verbatim>\<open>colorGridFirstRow.map((_, i) => colorGrid.map(row => row[i]))\<close>: the outer \<^verbatim>\<open>map\<close>
  passes over the holes of the first row, the inner one over the rows that are holes,
  and \<^verbatim>\<open>row[i]\<close> is \<^verbatim>\<open>undefined\<close> (\<open>None\<close>) at a hole of the row or past its end.
  \<^verbatim>\<open>colorGrid[0].map\<close> throws when \<^verbatim>\<open>colorGrid[0]\<close> is undefined.
\<close>

definition transposed :: "RGBA slot list slot list \<Rightarrow> error + RGBA option slot list slot list" where
  "transposed cg =
     (case elem cg 0 of
        None \<Rightarrow> Inl TypeError
      | Some colorGridFirstRow \<Rightarrow>
          Inr (map (\<lambda>i. map_slot (\<lambda>_. map (map_slot (\<lambda>row. elem row i)) cg)
                           (colorGridFirstRow ! i))
                 [0..<length colorGridFirstRow]))"

text \<open>\<^verbatim>\<open>flat.push(...item)\<close>: spreading \<^verbatim>\<open>undefined\<close> throws.\<close>

definition spreadItem :: "RGBA option \<Rightarrow> error + int list" where
  "spreadItem item = (case item of None \<Rightarrow> Inl TypeError | Some c \<Rightarrow> Inr (rgba_items c))"

text \<open>
  \<^verbatim>\<open>transposed.reverse()\<close>, then the two nested \<^verbatim>\<open>map\<close>s that push every item's four
  components to \<^verbatim>\<open>flat\<close>, row after row; both pass over holes.
\<close>

definition flat :: "RGBA slot list slot list \<Rightarrow> error + int list" where
  "flat cg =
     (case transposed cg of
        Inl e \<Rightarrow> Inl e
      | Inr t \<Rightarrow>
          (case mapE spreadItem (concat (map present (present (rev t)))) of
             Inl e \<Rightarrow> Inl e
           | Inr pushed \<Rightarrow> Inr (concat pushed)))"

text \<open>\<^verbatim>\<open>new Uint8Array(flat)\<close>: every number is stored modulo 256.\<close>

definition Uint8Array :: "int list \<Rightarrow> 8 word list" where
  "Uint8Array ns = map word_of_int ns"

definition gridData :: "RGBA slot list slot list \<Rightarrow> error + 8 word list" where
  "gridData cg = (case flat cg of Inl e \<Rightarrow> Inl e | Inr ns \<Rightarrow> Inr (Uint8Array ns))"

text \<open>
  The GL context is the host's. What the hooks ask of it is recorded as a list of
  calls; what it answers is a \<open>gl_context\<close>: whether each \<^verbatim>\<open>create\<close> call gives
  \<^verbatim>\<open>null\<close>, and the compile and link status.
\<close>

datatype shader_kind = VERTEX_SHADER | FRAGMENT_SHADER

text \<open>
  The shader sources of shaders.ts: \<^verbatim>\<open>getVertexSource()\<close>, and
  \<^verbatim>\<open>getFragmentSource(numLatSteps, gridSizeX, gridSizeY)\<close>, a text fixed up to the
  three numbers it interpolates.
\<close>

datatype shader_source = VertexSource | FragmentSource nat nat nat

definition getVertexSource :: shader_source where
  "getVertexSource = VertexSource"

definition getFragmentSource :: "nat \<Rightarrow> nat \<Rightarrow> nat \<Rightarrow> shader_source" where
  "getFragmentSource numLatSteps gridSizeX gridSizeY = FragmentSource numLatSteps gridSizeX gridSizeY"

datatype gl_call =
    CreateShader shader_kind
  | ShaderSource shader_kind shader_source
  | CompileShader shader_kind
  | ConsoleError string
  | CreateProgram
  | AttachShader shader_kind
  | LinkProgram
  | CreateBuffer
  | BindBuffer
  | BufferData "real list"
  | CreateTexture
  | BindTexture
  | TexParameteri string string
  | PixelStorei string nat
  | TexImage2D nat nat "8 word list"

record gl_context =
  createShader_null :: "shader_kind \<Rightarrow> bool"
  createProgram_null :: bool
  createBuffer_null :: bool
  COMPILE_STATUS :: "shader_kind \<Rightarrow> bool"
  LINK_STATUS :: bool

text \<open>A run of a hook: the calls it made, and the error it threw, if any.\<close>

type_synonym gl_run = "gl_call list \<times> error option"

definition andThen :: "gl_run \<Rightarrow> gl_run \<Rightarrow> gl_run" where
  "andThen first rest =
     (case snd first of
        Some e \<Rightarrow> first
      | None \<Rightarrow> (fst first @ fst rest, snd rest))"

definition createVertexShader :: "gl_context \<Rightarrow> shader_source \<Rightarrow> gl_run" where
  "createVertexShader gl vertexSource =
     (if createShader_null gl VERTEX_SHADER then
        ([CreateShader VERTEX_SHADER], Some (Error ''Error creating WebGL vertex shader.''))
      else
        ([CreateShader VERTEX_SHADER, ShaderSource VERTEX_SHADER vertexSource,
          CompileShader VERTEX_SHADER]
           @ (if \<not> COMPILE_STATUS gl VERTEX_SHADER
              then [ConsoleError ''Vertex shader compilation error:''] else []),
         None))"

definition createFragmentShader :: "gl_context \<Rightarrow> shader_source \<Rightarrow> gl_run" where
  "createFragmentShader gl fragmentSource =
     (if createShader_null gl FRAGMENT_SHADER then
        ([CreateShader FRAGMENT_SHADER], Some (Error ''Error creating WebGL fragment shader.''))
      else
        ([CreateShader FRAGMENT_SHADER, ShaderSource FRAGMENT_SHADER fragmentSource,
          CompileShader FRAGMENT_SHADER]
           @ (if \<not> COMPILE_STATUS gl FRAGMENT_SHADER
              then [ConsoleError ''Fragment shader compilation error:''] else []),
         None))"

definition createProgram :: "gl_context \<Rightarrow> gl_run" where
  "createProgram gl =
     (if createProgram_null gl then
        ([CreateProgram], Some (Error ''Error creating WebGL program.''))
      else
        ([CreateProgram, AttachShader VERTEX_SHADER, AttachShader FRAGMENT_SHADER, LinkProgram]
           @ (if \<not> LINK_STATUS gl then [ConsoleError ''Program linking error:''] else []),
         None))"

text \<open>\<^verbatim>\<open>new Float32Array(data)\<close>: the buffer holds 32-bit floats.\<close>

definition createFloat32Buffer :: "gl_context \<Rightarrow> real list \<Rightarrow> gl_run" where
  "createFloat32Buffer gl data =
     (if createBuffer_null gl then
        ([CreateBuffer], Some (Error ''Error creating WebGL buffer.''))
      else ([CreateBuffer, BindBuffer, BufferData (map float32 data)], None))"

text \<open>The part of \<^verbatim>\<open>onAdd\<close> after the vertex buffer: the grid texture.\<close>

definition prepareTexture :: "CustomLayer \<Rightarrow> gl_run" where
  "prepareTexture layer =
     (if x (gridSize layer) = 0 then ([], None)
      else
        (case gridData (colorGrid layer) of
           Inl e \<Rightarrow> ([], Some e)
         | Inr data \<Rightarrow>
             if x (gridSize layer) * y (gridSize layer) * 4 \<noteq> length data then
               ([], Some (ColorMatrixSizeError (x (gridSize layer) * y (gridSize layer) * 4)
                            (length data)))
             else
               ([CreateTexture, BindTexture,
                 TexParameteri ''TEXTURE_WRAP_S'' ''CLAMP_TO_EDGE'',
                 TexParameteri ''TEXTURE_WRAP_T'' ''CLAMP_TO_EDGE'',
                 TexParameteri ''TEXTURE_MIN_FILTER'' ''NEAREST'',
                 TexParameteri ''TEXTURE_MAG_FILTER'' ''NEAREST'',
                 PixelStorei ''UNPACK_ALIGNMENT'' 1,
                 TexImage2D (x (gridSize layer)) (y (gridSize layer)) data],
                None)))"

text \<open>\<open>projection\<close> is \<^verbatim>\<open>map.getProjection().name\<close>.\<close>

definition onAdd :: "CustomLayer \<Rightarrow> string \<Rightarrow> gl_context \<Rightarrow> gl_run" where
  "onAdd layer projection gl =
     (if projection \<noteq> ''mercator'' then
        ([], Some (Error ''Choropleth grid layer is only supported for Mercator projection.''))
      else
        andThen (createVertexShader gl getVertexSource)
       (andThen (createFragmentShader gl
                   (getFragmentSource (length (latStepsMercator layer))
                      (x (gridSize layer)) (y (gridSize layer))))
       (andThen (createProgram gl)
       (andThen (createFloat32Buffer gl
                   [x (bottomLeft (dataBoundsMercator layer)), y (bottomLeft (dataBoundsMercator layer)),
                    x (topLeft (dataBoundsMercator layer)), y (topLeft (dataBoundsMercator layer)),
                    x (bottomRight (dataBoundsMercator layer)), y (bottomRight (dataBoundsMercator layer)),
                    x (topRight (dataBoundsMercator layer)), y (topRight (dataBoundsMercator layer))])
                (prepareTexture layer)))))"

text \<open>The calls of a run that create, configure or upload a texture.\<close>

fun is_texture_call :: "gl_call \<Rightarrow> bool" where
  "is_texture_call CreateTexture = True"
| "is_texture_call BindTexture = True"
| "is_texture_call (TexParameteri _ _) = True"
| "is_texture_call (PixelStorei _ _) = True"
| "is_texture_call (TexImage2D _ _ _) = True"
| "is_texture_call _ = False"

section \<open>The other \<^verbatim>\<open>createLayer\<close> (src/unnamed/part\_000): its texture data\<close>

text \<open>
  The loops of lines 183 to 197 of part\_000: \<^verbatim>\<open>i\<close> runs to \<^verbatim>\<open>gridSize.x\<close>, \<^verbatim>\<open>j\<close> to
  \<^verbatim>\<open>gridSize.y\<close>, and the cell read is \<^verbatim>\<open>colorGrid[j][i]\<close>, with a throw where the row
  or the cell is undefined.
\<close>

text \<open>Reading \<^verbatim>\<open>xs[i]\<close> in an array with no hole: \<^verbatim>\<open>undefined\<close> past the end.\<close>

definition nth_opt :: "'e list \<Rightarrow> nat \<Rightarrow> 'e option" where
  "nth_opt xs i = (if i < length xs then Some (xs ! i) else None)"

definition cell_part_000 :: "RGBA list list \<Rightarrow> nat \<Rightarrow> nat \<Rightarrow> error + RGBA" where
  "cell_part_000 cg i j =
     (case nth_opt cg j of
        None \<Rightarrow> Inl (Error ''Row in color matrix was null.'')
      | Some gridJ \<Rightarrow>
          (case nth_opt gridJ i of
             None \<Rightarrow> Inl (Error ''Cell in color matrix was null.'')
           | Some gridJI \<Rightarrow> Inr gridJI))"

definition transposed_part_000 :: "RGBA list list \<Rightarrow> nat vec2 \<Rightarrow> error + RGBA list list" where
  "transposed_part_000 cg gs =
     mapE (\<lambda>i. mapE (\<lambda>j. cell_part_000 cg i j) [0..<y gs]) [0..<x gs]"

text \<open>
  From the colour grid to \<^verbatim>\<open>gridData\<close> in part\_000: the throw of lines 51 to 53 when
  there is no first row, \<^verbatim>\<open>gridSize = { x: colorGrid.length, y: colorGrid[0].length }\<close>,
  the loops, \<^verbatim>\<open>transposed.reverse()\<close> and
  \<^verbatim>\<open>new Uint8Array(transposed.flat().flat())\<close>.
\<close>

definition gridData_part_000 :: "RGBA list list \<Rightarrow> error + 8 word list" where
  "gridData_part_000 cg =
     (case nth_opt cg 0 of
        None \<Rightarrow> Inl (Error ''Data row is undefined.'')
      | Some firstRow \<Rightarrow>
          (case transposed_part_000 cg \<lparr>x = length cg, y = length firstRow\<rparr> of
             Inl e \<Rightarrow> Inl e
           | Inr t \<Rightarrow> Inr (Uint8Array (concat (map rgba_items (concat (rev t)))))))"

section \<open>Per-frame hook: the uniforms \<^verbatim>\<open>render\<close> uploads (layer.ts)\<close>

record Uniforms =
  u_drawingBufferSize :: "real vec2"
  u_viewportBoundsMercatorMin :: "real vec2"
  u_viewportBoundsMercatorSize :: "real vec2"
  u_dataBoundsMercatorMin :: "real vec2"
  u_lngMercatorStep :: real
  u_latMercatorSteps :: "real list"
  u_opacity :: real

text \<open>
  \<open>viewport\<close> is \<^verbatim>\<open>g_map.getBounds()\<close>, \<open>drawingBuffer\<close> the drawing buffer's width and
  height. \<^verbatim>\<open>uniform1f\<close>, \<^verbatim>\<open>uniform2f\<close> and \<^verbatim>\<open>new Float32Array\<close> store 32-bit floats:
  \<open>upload\<close> is the rounding of a number to the stored value, \<open>float32\<close> for the program
  as it runs.
\<close>

definition render ::
    "(real \<Rightarrow> real) \<Rightarrow> (real \<Rightarrow> real) \<Rightarrow> (LngLat \<Rightarrow> error + MercatorCoordinate) \<Rightarrow> CustomLayer
      \<Rightarrow> Bounds \<Rightarrow> real vec2 \<Rightarrow> error + Uniforms" where
  "render rnd upload fromLngLat layer viewport drawingBuffer =
     (case fromLngLat (sw viewport) of
        Inl e \<Rightarrow> Inl e
      | Inr viewportBoundsMercatorSW \<Rightarrow>
     (case fromLngLat (ne viewport) of
        Inl e \<Rightarrow> Inl e
      | Inr viewportBoundsMercatorNE \<Rightarrow>
          Inr
            \<lparr>u_drawingBufferSize =
               \<lparr>x = upload (x drawingBuffer), y = upload (y drawingBuffer)\<rparr>,
             u_viewportBoundsMercatorMin =
               \<lparr>x = upload (x viewportBoundsMercatorSW), y = upload (y viewportBoundsMercatorNE)\<rparr>,
             u_viewportBoundsMercatorSize =
               \<lparr>x = upload (rnd (x viewportBoundsMercatorNE - x viewportBoundsMercatorSW)),
                y = upload (rnd (y viewportBoundsMercatorSW - y viewportBoundsMercatorNE))\<rparr>,
             u_dataBoundsMercatorMin =
               \<lparr>x = upload (x (topLeft (dataBoundsMercator layer))),
                y = upload (y (topLeft (dataBoundsMercator layer)))\<rparr>,
             u_lngMercatorStep = upload (lngStepMercator layer),
             u_latMercatorSteps = map upload (latStepsMercator layer),
             u_opacity = upload (layer_opacity layer)\<rparr>))"

section \<open>The fragment shader's \<^verbatim>\<open>main\<close> (shaders.ts, \<^verbatim>\<open>getFragmentSource\<close>)\<close>

text \<open>
  The shader's own arithmetic runs on the GPU in \<^verbatim>\<open>mediump\<close>, a precision the source
  does not fix. Here it is carried out on the uploaded values without further
  rounding: the most any GPU could give.
\<close>

definition fragCoordMercator :: "Uniforms \<Rightarrow> real vec2 \<Rightarrow> real vec2" where
  "fragCoordMercator u fragCoord =
     (let nx = x fragCoord / x (u_drawingBufferSize u);
          ny = y fragCoord / y (u_drawingBufferSize u)
      in \<lparr>x = x (u_viewportBoundsMercatorMin u) + x (u_viewportBoundsMercatorSize u) * nx,
          y = y (u_viewportBoundsMercatorMin u) + y (u_viewportBoundsMercatorSize u) * (1 - ny)\<rparr>)"

definition lngIndex :: "Uniforms \<Rightarrow> real vec2 \<Rightarrow> int" where
  "lngIndex u fcm = \<lfloor>(x fcm - x (u_dataBoundsMercatorMin u)) / u_lngMercatorStep u\<rfloor>"

text \<open>
  \<^verbatim>\<open>u_latMercatorSteps[i]\<close>: the array has \<^verbatim>\<open>numLatSteps\<close> elements; one that no
  upload reached holds 0.
\<close>

definition latStepAt :: "real list \<Rightarrow> nat \<Rightarrow> real" where
  "latStepAt steps i = (if i < length steps then steps ! i else 0)"

text \<open>
  The loop \<^verbatim>\<open>for (int i = 0; i < numLatSteps; i++)\<close> with its \<^verbatim>\<open>break\<close>; \<open>latIndexInt\<close>
  is the variable it assigns.
\<close>

function latIndexLoop :: "real \<Rightarrow> real list \<Rightarrow> nat \<Rightarrow> nat \<Rightarrow> nat \<Rightarrow> nat" where
  "latIndexLoop fy steps numLatSteps i latIndexInt =
     (if i < numLatSteps then
        (if fy \<ge> latStepAt steps i then latIndexLoop fy steps numLatSteps (Suc i) i
         else latIndexInt)
      else latIndexInt)"
  by pat_completeness auto
termination
  by (relation "measure (\<lambda>(fy, steps, numLatSteps, i, latIndexInt). numLatSteps - i)") auto

definition latIndex :: "nat \<Rightarrow> Uniforms \<Rightarrow> real vec2 \<Rightarrow> nat" where
  "latIndex numLatSteps u fcm = latIndexLoop (y fcm) (u_latMercatorSteps u) numLatSteps 0 0"

definition texCoords :: "nat \<Rightarrow> nat \<Rightarrow> nat \<Rightarrow> Uniforms \<Rightarrow> real vec2 \<Rightarrow> real vec2" where
  "texCoords numLatSteps gridSizeX gridSizeY u fcm =
     \<lparr>x = real_of_int (lngIndex u fcm) / real gridSizeX,
      y = real (latIndex numLatSteps u fcm) / real gridSizeY\<rparr>"

text \<open>
  \<^verbatim>\<open>texture2D\<close> on the texture \<^verbatim>\<open>onAdd\<close> uploads (GL's rules, not code of the
  repository): the data is \<open>height\<close> rows of \<open>width\<close> texels of four bytes, first row at
  coordinate 0, rows packed with no padding (\<^verbatim>\<open>UNPACK_ALIGNMENT\<close> 1); with \<^verbatim>\<open>NEAREST\<close>
  and \<^verbatim>\<open>CLAMP_TO_EDGE\<close> the coordinate \<open>s\<close> reads texel \<open>\<lfloor>s * width\<rfloor>\<close>, clamped to the
  texture.
\<close>

definition texelIndex :: "nat \<Rightarrow> real \<Rightarrow> nat" where
  "texelIndex n s = nat (max 0 (min (int n - 1) \<lfloor>s * real n\<rfloor>))"

definition texel :: "nat \<Rightarrow> 8 word list \<Rightarrow> nat \<Rightarrow> nat \<Rightarrow> 8 word list" where
  "texel width data col row = take 4 (drop ((row * width + col) * 4) data)"

definition texture2D :: "nat \<Rightarrow> nat \<Rightarrow> 8 word list \<Rightarrow> real vec2 \<Rightarrow> 8 word list" where
  "texture2D width height data tc =
     texel width data (texelIndex width (x tc)) (texelIndex height (y tc))"

section \<open>The latitude lookup as the specification words it\<close>

text \<open>
  A scan of the whole table with no \<^verbatim>\<open>break\<close>: the largest index \<open>i\<close> whose entry is
  at most the fragment's \<open>y\<close>, and 0 when there is none.
\<close>

definition latIndex_full_scan :: "real \<Rightarrow> real list \<Rightarrow> nat" where
  "latIndex_full_scan fy steps =
     (case rev (filter (\<lambda>i. fy \<ge> steps ! i) [0..<length steps]) of
        [] \<Rightarrow> 0
      | i # _ \<Rightarrow> i)"

section \<open>Geography of a grid\<close>

text \<open>The geographic centre of cell \<open>(i, j)\<close>: \<open>i\<close> counts columns of longitude from
  the west, \<open>j\<close> rows of latitude from the south.\<close>

definition cellCenter :: "'a IChoroplethGridLayerOptions \<Rightarrow> nat \<Rightarrow> nat \<Rightarrow> LngLat" where
  "cellCenter options i j =
     \<lparr>lng = lng (offset options) + (real i + 1 / 2) * lng (stepSize options),
      lat = lat (offset options) + (real j + 1 / 2) * lat (stepSize options)\<rparr>"

text \<open>
  Modelled from the spec: \<^verbatim>\<open>MercatorCoordinate.fromLngLat\<close> belongs to mapbox-gl and is
  not among the sources. The glossary's Mercator-style projection, as a property of
  the coordinates the function computes: \<open>x\<close> is linear in longitude (and does not
  depend on latitude).
\<close>

definition x_linear_in_longitude :: "(LngLat \<Rightarrow> MercatorCoordinate) \<Rightarrow> bool" where
  "x_linear_in_longitude fromLngLat \<longleftrightarrow>
     (\<exists>a b. a \<noteq> 0 \<and> (\<forall>p. x (fromLngLat p) = a * lng p + b))"

text \<open>
  Modelled from the spec: the glossary's \<open>y\<close> is a monotonic function of latitude; the
  shader's scan reads it as growing southwards. Here: between the latitudes \<open>south\<close> and
  \<open>north\<close>, a point further north has the smaller \<open>y\<close>, whatever the longitudes.
\<close>

definition y_decreasing_in_latitude ::
    "real \<Rightarrow> real \<Rightarrow> (LngLat \<Rightarrow> MercatorCoordinate) \<Rightarrow> bool" where
  "y_decreasing_in_latitude south north fromLngLat \<longleftrightarrow>
     (\<forall>p q. south \<le> lat p \<and> lat p < lat q \<and> lat q \<le> north
        \<longrightarrow> y (fromLngLat q) < y (fromLngLat p))"

section \<open>Example inputs\<close>

text \<open>
  Modelled from the spec: \<^verbatim>\<open>MercatorCoordinate.fromLngLat\<close> belongs to mapbox-gl and is
  not among the sources. \<open>webMercator\<close> is the Web Mercator projection onto the unit
  square, an instance of the glossary's Mercator-style projection, as a function of
  real numbers.
\<close>

definition webMercator :: "LngLat \<Rightarrow> MercatorCoordinate" where
  "webMercator p =
     \<lparr>x = (180 + lng p) / 360,
      y = (180 - 180 / pi * ln (tan (pi / 4 + lat p * pi / 360))) / 360\<rparr>"

text \<open>
  Modelled from mapbox-gl, which is not among the sources: its
  \<^verbatim>\<open>MercatorCoordinate.fromLngLat\<close> first converts its argument to a \<^verbatim>\<open>LngLat\<close>, whose
  constructor throws for a latitude outside \<open>[-90, 90]\<close>, and then computes
  \<^verbatim>\<open>x = (180 + lng) / 360\<close> and the \<open>y\<close> of Web Mercator. The \<open>y\<close> is taken as the
  rounding of its exact value.
\<close>

definition fromLngLat_mapbox :: "(real \<Rightarrow> real) \<Rightarrow> LngLat \<Rightarrow> error + MercatorCoordinate" where
  "fromLngLat_mapbox rnd p =
     (if lat p > 90 \<or> lat p < -90 then
        Inl (Error ''Invalid LngLat latitude value: must be between -90 and 90'')
      else Inr \<lparr>x = rnd (rnd (180 + lng p) / 360), y = rnd (y (webMercator p))\<rparr>)"

text \<open>A projection that accepts every point.\<close>

definition never_throws ::
    "(LngLat \<Rightarrow> MercatorCoordinate) \<Rightarrow> LngLat \<Rightarrow> error + MercatorCoordinate" where
  "never_throws f p = Inr (f p)"

text \<open>
  The options of the README's usage example, its grid read as three rows of three
  cells. A decimal literal of a program is the number nearest to it that the
  program's numbers have: \<open>rnd\<close> of the decimal (0.25 is a double).
\<close>

definition readme_options :: "(real \<Rightarrow> real) \<Rightarrow> nat IChoroplethGridLayerOptions" where
  "readme_options rnd =
     \<lparr>dataGrid = grid [[1, 1, 2], [1, 2, 3], [2, 3, 3]],
      getColor = (\<lambda>v. if v = 1 then (255, 0, 0, 255)
                       else if v = 2 then (0, 255, 0, 255)
                       else if v = 3 then (0, 0, 255, 255)
                       else (0, 0, 0, 0)),
      stepSize = \<lparr>lng = rnd (1 / 10), lat = rnd (1 / 10)\<rparr>,
      offset = \<lparr>lng = rnd (106 / 10), lat = rnd (5978 / 100)\<rparr>,
      opacity = 1 / 4,
      layerId = None\<rparr>"

text \<open>A GL context that never answers \<^verbatim>\<open>null\<close>, and compiles and links.\<close>

definition working_gl :: gl_context where
  "working_gl =
     \<lparr>createShader_null = (\<lambda>k. False), createProgram_null = False, createBuffer_null = False,
      COMPILE_STATUS = (\<lambda>k. True), LINK_STATUS = True\<rparr>"

section \<open>The doubles and floats of the examples\<close>

text \<open>
  The rounding of a number whose binary exponent \<open>k\<close> is known, and with it the
  doubles nearest to the decimals of the examples and the results of the additions
  and subtractions made on them.
\<close>

lemma round_to_eval:
  assumes "2 powr of_int k \<le> \<bar>v\<bar>" "\<bar>v\<bar> < 2 powr (of_int k + 1)"
  shows "round_to p v = of_int (rne (v / 2 powr of_int (k - int p + 1))) * 2 powr of_int (k - int p + 1)"
proof -
  have "0 < 2 powr real_of_int k" by simp
  then have "0 < \<bar>v\<bar>" using assms(1) by (rule less_le_trans)
  then have nz: "v \<noteq> 0" by auto
  have "\<lfloor>log 2 \<bar>v\<bar>\<rfloor> = k"
    using assms \<open>0 < \<bar>v\<bar>\<close> by (subst floor_log_eq_powr_iff) auto
  then show ?thesis using nz by (simp add: round_to_def Let_def)
qed

lemma binary64_5978: "binary64 (5978 / 100) = 2103321763470377 / 2 ^ 45"
  unfolding binary64_def
  by (subst round_to_eval [where k = 5]) (simp_all add: rne_def Let_def powr_minus)

lemma binary64_tenth: "binary64 (1 / 10) = 3602879701896397 / 2 ^ 55"
  unfolding binary64_def
  by (subst round_to_eval [where k = "-4"]) (simp_all add: rne_def Let_def powr_minus)

lemma binary64_106: "binary64 (106 / 10) = 5967269506265907 / 2 ^ 49"
  unfolding binary64_def
  by (subst round_to_eval [where k = 3]) (simp_all add: rne_def Let_def powr_minus)

lemma binary64_north: "binary64 (2103321763470377 / 2 ^ 45 + 1351079888211149 / 2 ^ 52) = 4227754150194053 / 2 ^ 46"
  unfolding binary64_def
  by (subst round_to_eval [where k = 5]) (simp_all add: rne_def Let_def powr_minus)

lemma binary64_step1: "binary64 (4227754150194053 / 2 ^ 46 - 3602879701896397 / 2 ^ 55) = 8441434551552573 / 2 ^ 47"
  unfolding binary64_def
  by (subst round_to_eval [where k = 5]) (simp_all add: rne_def Let_def powr_minus)

lemma binary64_step2: "binary64 (8441434551552573 / 2 ^ 47 - 3602879701896397 / 2 ^ 55) = 526710050169815 / 2 ^ 43"
  unfolding binary64_def
  by (subst round_to_eval [where k = 5]) (simp_all add: rne_def Let_def powr_minus)

lemma binary64_step3: "binary64 (526710050169815 / 2 ^ 43 - 3602879701896397 / 2 ^ 55) = 8413287053881507 / 2 ^ 47"
  unfolding binary64_def
  by (subst round_to_eval [where k = 5]) (simp_all add: rne_def Let_def powr_minus)

lemma binary64_tiny: "binary64 (1 / 10 ^ 15) = 2535301200456459 / 2 ^ 101"
  unfolding binary64_def
  by (subst round_to_eval [where k = "-50"]) (simp_all add: rne_def Let_def powr_minus)

lemma binary64_absorbed:
  "binary64 (2103321763470377 / 2 ^ 45 - 2535301200456459 / 2 ^ 101) = 2103321763470377 / 2 ^ 45"
  unfolding binary64_def
  by (subst round_to_eval [where k = 5]) (simp_all add: rne_def Let_def powr_minus)

lemma binary64_south: "binary64 (2103321763470377 / 2 ^ 45) = 2103321763470377 / 2 ^ 45"
  unfolding binary64_def
  by (subst round_to_eval [where k = 5]) (simp_all add: rne_def Let_def powr_minus)

lemma binary64_one_step:
  "binary64 (real (1::nat) * (3602879701896397 / 2 ^ 55)) = 3602879701896397 / 2 ^ 55"
  unfolding binary64_def
  by (subst round_to_eval [where k = "-4"]) (simp_all add: rne_def Let_def powr_minus)

lemma binary64_north_one:
  "binary64 (2103321763470377 / 2 ^ 45 + 3602879701896397 / 2 ^ 55) = 8427360802717041 / 2 ^ 47"
  unfolding binary64_def
  by (subst round_to_eval [where k = 5]) (simp_all add: rne_def Let_def powr_minus)

lemma binary64_one_row_step1:
  "binary64 (8427360802717041 / 2 ^ 47 - 3602879701896397 / 2 ^ 55) = 2103321763470377 / 2 ^ 45"
  unfolding binary64_def
  by (subst round_to_eval [where k = 5]) (simp_all add: rne_def Let_def powr_minus)

lemma binary64_one_row_step2:
  "binary64 (2103321763470377 / 2 ^ 45 - 3602879701896397 / 2 ^ 55) = 8399213305045975 / 2 ^ 47"
  unfolding binary64_def
  by (subst round_to_eval [where k = 5]) (simp_all add: rne_def Let_def powr_minus)

text \<open>
  The latitude loop in doubles, at the README's latitudes (59.78, three steps of 0.1 to
  the north bound 60.08), for a row of one cell, and for a step that the subtraction
  absorbs.
\<close>

lemma latStepsLoop_readme:
  "latStepsLoop binary64 (fromLngLat_mapbox binary64) (4227754150194053 / 2 ^ 46)
     (2103321763470377 / 2 ^ 45) (3602879701896397 / 2 ^ 55) acc
   = Some (Inr (acc @
       [binary64 (y (webMercator \<lparr>lng = 0, lat = 4227754150194053 / 2 ^ 46\<rparr>)),
        binary64 (y (webMercator \<lparr>lng = 0, lat = 8441434551552573 / 2 ^ 47\<rparr>)),
        binary64 (y (webMercator \<lparr>lng = 0, lat = 526710050169815 / 2 ^ 43\<rparr>))]))"
  apply (subst latStepsLoop.simps)
  apply (simp only: binary64_step1)
  apply (subst latStepsLoop.simps)
  apply (simp only: binary64_step2)
  apply (subst latStepsLoop.simps)
  apply (simp only: binary64_step3)
  apply (subst latStepsLoop.simps)
  apply (simp add: fromLngLat_mapbox_def)
  done

lemma latStepsLoop_one_row:
  "latStepsLoop binary64 (fromLngLat_mapbox binary64) (8427360802717041 / 2 ^ 47)
     (2103321763470377 / 2 ^ 45) (3602879701896397 / 2 ^ 55) acc
   = Some (Inr (acc @
       [binary64 (y (webMercator \<lparr>lng = 0, lat = 8427360802717041 / 2 ^ 47\<rparr>)),
        binary64 (y (webMercator \<lparr>lng = 0, lat = 2103321763470377 / 2 ^ 45\<rparr>))]))"
  apply (subst latStepsLoop.simps)
  apply (simp only: binary64_one_row_step1)
  apply (subst latStepsLoop.simps)
  apply (simp only: binary64_one_row_step2)
  apply (subst latStepsLoop.simps)
  apply (simp add: fromLngLat_mapbox_def)
  done

lemma latStepsLoop_absorbed_step:
  "latStepsLoop binary64 (fromLngLat_mapbox binary64) (2103321763470377 / 2 ^ 45)
     (2103321763470377 / 2 ^ 45) (2535301200456459 / 2 ^ 101) acc = None"
proof (cases "latStepsLoop binary64 (fromLngLat_mapbox binary64) (2103321763470377 / 2 ^ 45)
     (2103321763470377 / 2 ^ 45) (2535301200456459 / 2 ^ 101) acc")
  case None
  then show ?thesis .
next
  case (Some r)
  let ?O = "2103321763470377 / 2 ^ 45 :: real" and ?T = "2535301200456459 / 2 ^ 101 :: real"
  have "\<not> (binary64 = binary64 \<and> fromLngLat_mapbox binary64 = fromLngLat_mapbox binary64
      \<and> ?O = ?O \<and> ?O = ?O \<and> ?T = ?T)"
  proof (rule latStepsLoop.raw_induct [where P = "\<lambda>rnd f lt south step acc r.
      \<not> (rnd = binary64 \<and> f = fromLngLat_mapbox binary64 \<and> lt = ?O \<and> south = ?O \<and> step = ?T)",
      OF _ Some])
    fix loop :: "(real \<Rightarrow> real) \<Rightarrow> (LngLat \<Rightarrow> error + MercatorCoordinate) \<Rightarrow> real \<Rightarrow> real \<Rightarrow> real
        \<Rightarrow> real list \<Rightarrow> (error + real list) option"
    fix rnd f lt south step acc r
    assume IH: "\<And>rnd f lt south step acc r. loop rnd f lt south step acc = Some r \<Longrightarrow>
        \<not> (rnd = binary64 \<and> f = fromLngLat_mapbox binary64 \<and> lt = ?O \<and> south = ?O \<and> step = ?T)"
    assume body: "(if south \<le> lt
        then case f \<lparr>lng = 0, lat = lt\<rparr> of
               Inl e \<Rightarrow> Some (Inl e)
             | Inr mercatorCoordinates \<Rightarrow>
                 loop rnd f (rnd (lt - step)) south step (acc @ [y mercatorCoordinates])
        else Some (Inr acc)) = Some r"
    show "\<not> (rnd = binary64 \<and> f = fromLngLat_mapbox binary64 \<and> lt = ?O \<and> south = ?O \<and> step = ?T)"
    proof
      assume h: "rnd = binary64 \<and> f = fromLngLat_mapbox binary64 \<and> lt = ?O \<and> south = ?O \<and> step = ?T"
      then have e: "rnd = binary64" "f = fromLngLat_mapbox binary64" "lt = ?O" "south = ?O" "step = ?T"
        by blast+
      have p: "fromLngLat_mapbox binary64 \<lparr>lng = 0, lat = ?O\<rparr>
          = Inr \<lparr>x = binary64 (binary64 (180 + 0) / 360),
                 y = binary64 (y (webMercator \<lparr>lng = 0, lat = ?O\<rparr>))\<rparr>"
        by (simp add: fromLngLat_mapbox_def)
      from body have "loop binary64 (fromLngLat_mapbox binary64) (binary64 (?O - ?T)) ?O ?T
          (acc @ [binary64 (y (webMercator \<lparr>lng = 0, lat = ?O\<rparr>))]) = Some r"
        unfolding e p by simp
      then have "loop binary64 (fromLngLat_mapbox binary64) ?O ?O ?T
          (acc @ [binary64 (y (webMercator \<lparr>lng = 0, lat = ?O\<rparr>))]) = Some r"
        by (simp only: binary64_absorbed)
      from IH [OF this] show False by simp
    qed
  qed
  then show ?thesis by simp
qed

section \<open>Validation failures\<close>

lemma createLayer_invalid:
  "verifyOptions options = Inl e \<Longrightarrow> createLayer rnd fromLngLat options = Some (Inl e)"
  by (simp add: createLayer_def)

text \<open>
  A row that is present and \<^verbatim>\<open>undefined\<close> is refused: the row-length test throws on
  reading its \<^verbatim>\<open>length\<close>, before the test for undefined rows is reached.
\<close>

lemma every_undefined_row:
  "Has None \<in> set rows \<Longrightarrow> every (rowLengthMatches d) rows \<noteq> Inr True"
proof (induction rows)
  case Nil
  then show ?case by simp
next
  case (Cons row rows)
  then show ?case
    by (cases row) (auto simp: rowLengthMatches_def split: option.splits sum.splits)
qed

lemma createLayer_rejects_assigned_undefined_row:
  assumes "Has None \<in> set (dataGrid options)"
  shows "\<exists>e. verifyOptions options = Inl e \<and> createLayer rnd fromLngLat options = Some (Inl e)"
proof -
  from assms have "every (rowLengthMatches (dataGrid options)) (dataGrid options) \<noteq> Inr True"
    by (rule every_undefined_row)
  then have "\<exists>e. verifyOptions options = Inl e"
    by (cases "every (rowLengthMatches (dataGrid options)) (dataGrid options)")
       (auto simp: verifyOptions_def)
  then show ?thesis using createLayer_invalid by blast
qed

lemma mapA_Inr_all:
  "mapA f ps = Inr qs \<Longrightarrow> Has p \<in> set ps \<Longrightarrow> \<exists>q. f p = Inr q"
proof (induction ps arbitrary: qs)
  case Nil
  then show ?case by simp
next
  case (Cons s ps)
  then show ?case by (cases s) (auto split: sum.splits)
qed

lemma mapE_Inr_all:
  "mapE f ps = Inr qs \<Longrightarrow> p \<in> set ps \<Longrightarrow> \<exists>q. f p = Inr q"
  by (induction ps arbitrary: qs) (auto split: sum.splits)

lemma bad_color_rejected:
  assumes "Has (Some row) \<in> set (dataGrid options)" "Has p \<in> set row"
    "getColor options p = (300, 0, 0, 255)"
  shows "\<exists>e. mapA (rowColors (getColor options)) (dataGrid options) = Inl e"
proof (cases "mapA (rowColors (getColor options)) (dataGrid options)")
  case (Inl e)
  then show ?thesis by blast
next
  case (Inr cg)
  from mapA_Inr_all [OF Inr assms(1)] obtain cs where "mapA (cellColor (getColor options)) row = Inr cs"
    by (auto simp: rowColors_def)
  from mapA_Inr_all [OF this assms(2)] obtain c where "cellColor (getColor options) p = Inr c"
    by blast
  with assms(3) show ?thesis by (simp add: cellColor_def)
qed

text \<open>
  C8. Each of these makes \<^verbatim>\<open>createLayer\<close> fail at once, with an error and no layer (so
  before any GL call, which only a layer's hooks make), whatever the other options,
  the rounding of the arithmetic and the projection: \<^verbatim>\<open>offset.lat = 95\<close>;
  \<^verbatim>\<open>stepSize.lng = 0\<close>; the jagged grid \<^verbatim>\<open>[[a, b], [c]]\<close>; a cell whose colour is
  \<^verbatim>\<open>[300, 0, 0, 255]\<close>; \<^verbatim>\<open>opacity = 1.5\<close>.
\<close>

theorem createLayer_rejects_invalid_inputs:
  assumes "lat (offset options) = 95 \<or> lng (stepSize options) = 0
    \<or> dataGrid options = grid [[a, b], [c]]
    \<or> (\<exists>row p. Has (Some row) \<in> set (dataGrid options) \<and> Has p \<in> set row
          \<and> getColor options p = (300, 0, 0, 255))
    \<or> opacity options = 3 / 2"
  shows "\<exists>e. createLayer rnd fromLngLat options = Some (Inl e)"
proof (cases "verifyOptions options")
  case (Inl e)
  then show ?thesis using createLayer_invalid by blast
next
  case (Inr u)
  then have ok: "lat (offset options) \<noteq> 95" "lng (stepSize options) \<noteq> 0"
      "dataGrid options \<noteq> grid [[a, b], [c]]" "opacity options \<noteq> 3 / 2"
    by (auto simp: verifyOptions_def rowLengthMatches_def grid_def array_def elem_def
          split: if_splits sum.splits)
  with assms obtain row p where "Has (Some row) \<in> set (dataGrid options)" "Has p \<in> set row"
      "getColor options p = (300, 0, 0, 255)"
    by blast
  from bad_color_rejected [OF this] Inr show ?thesis
    by (auto simp: createLayer_def)
qed

theorem createLayer_rejects_invalid_inputs_witness:
  "(\<exists>e. createLayer binary64 (fromLngLat_mapbox binary64)
           ((readme_options binary64)\<lparr>offset := \<lparr>lng = binary64 (106 / 10), lat = 95\<rparr>\<rparr>) = Some (Inl e))
   \<and> (\<exists>e. createLayer binary64 (fromLngLat_mapbox binary64)
           ((readme_options binary64)\<lparr>stepSize := \<lparr>lng = 0, lat = binary64 (1 / 10)\<rparr>\<rparr>) = Some (Inl e))
   \<and> (\<exists>e. createLayer binary64 (fromLngLat_mapbox binary64)
           ((readme_options binary64)\<lparr>dataGrid := grid [[1, 2], [1]]\<rparr>) = Some (Inl e))
   \<and> (\<exists>e. createLayer binary64 (fromLngLat_mapbox binary64)
           ((readme_options binary64)\<lparr>getColor := (\<lambda>v. (300, 0, 0, 255))\<rparr>) = Some (Inl e))
   \<and> (\<exists>e. createLayer binary64 (fromLngLat_mapbox binary64)
           ((readme_options binary64)\<lparr>opacity := 3 / 2\<rparr>) = Some (Inl e))"
proof (intro conjI)
  show "\<exists>e. createLayer binary64 (fromLngLat_mapbox binary64)
           ((readme_options binary64)\<lparr>offset := \<lparr>lng = binary64 (106 / 10), lat = 95\<rparr>\<rparr>) = Some (Inl e)"
    by (rule createLayer_rejects_invalid_inputs [where a = 1 and b = 2 and c = 1], rule disjI1) simp
  show "\<exists>e. createLayer binary64 (fromLngLat_mapbox binary64)
           ((readme_options binary64)\<lparr>stepSize := \<lparr>lng = 0, lat = binary64 (1 / 10)\<rparr>\<rparr>) = Some (Inl e)"
    by (rule createLayer_rejects_invalid_inputs [where a = 1 and b = 2 and c = 1], rule disjI2, rule disjI1) simp
  show "\<exists>e. createLayer binary64 (fromLngLat_mapbox binary64)
           ((readme_options binary64)\<lparr>dataGrid := grid [[1, 2], [1]]\<rparr>) = Some (Inl e)"
    by (rule createLayer_rejects_invalid_inputs [where a = 1 and b = 2 and c = 1], rule disjI2, rule disjI2, rule disjI1) simp
  show "\<exists>e. createLayer binary64 (fromLngLat_mapbox binary64)
           ((readme_options binary64)\<lparr>getColor := (\<lambda>v. (300, 0, 0, 255))\<rparr>) = Some (Inl e)"
    by (rule createLayer_rejects_invalid_inputs [where a = 1 and b = 2 and c = 1], rule disjI2, rule disjI2, rule disjI2,
        rule disjI1, rule exI [of _ "array [1, 1, 2]"], rule exI [of _ 1])
       (simp add: readme_options_def grid_def array_def)
  show "\<exists>e. createLayer binary64 (fromLngLat_mapbox binary64)
           ((readme_options binary64)\<lparr>opacity := 3 / 2\<rparr>) = Some (Inl e)"
    by (rule createLayer_rejects_invalid_inputs [where a = 1 and b = 2 and c = 1], rule disjI2, rule disjI2, rule disjI2,
        rule disjI2) simp
qed

section \<open>Construction in exact arithmetic\<close>

text \<open>
  With exact subtraction and a projection that accepts every latitude, the latitude
  loop started \<open>n\<close> steps above the south bound ends, after \<open>n + 1\<close> entries: the
  projections of the latitudes from the north bound down to the south bound itself.
\<close>

lemma latStepsLoop_exact:
  "0 < step \<Longrightarrow>
   latStepsLoop exact (never_throws f) (south + real n * step) south step acc =
     Some (Inr (acc @ map (\<lambda>k. y (f \<lparr>lng = 0, lat = south + real (n - k) * step\<rparr>)) [0..<Suc n]))"
proof (induction n arbitrary: acc)
  case 0
  have "latStepsLoop exact (never_throws f) south south step acc
        = latStepsLoop exact (never_throws f) (south - step) south step
            (acc @ [y (f \<lparr>lng = 0, lat = south\<rparr>)])"
    by (subst latStepsLoop.simps) (simp add: exact_def never_throws_def)
  also have "\<dots> = Some (Inr (acc @ [y (f \<lparr>lng = 0, lat = south\<rparr>)]))"
    using 0 by (subst latStepsLoop.simps) simp
  finally show ?case by simp
next
  case (Suc n)
  have ge: "south + real (Suc n) * step \<ge> south" using Suc.prems by simp
  have sub: "exact (south + real (Suc n) * step - step) = south + real n * step"
    by (simp add: exact_def algebra_simps)
  have "latStepsLoop exact (never_throws f) (south + real (Suc n) * step) south step acc
        = latStepsLoop exact (never_throws f) (south + real n * step) south step
            (acc @ [y (f \<lparr>lng = 0, lat = south + real (Suc n) * step\<rparr>)])"
    using ge by (subst latStepsLoop.simps) (simp only: sub if_True never_throws_def sum.case)
  also have "\<dots> = Some (Inr ((acc @ [y (f \<lparr>lng = 0, lat = south + real (Suc n) * step\<rparr>)])
        @ map (\<lambda>k. y (f \<lparr>lng = 0, lat = south + real (n - k) * step\<rparr>)) [0..<Suc n]))"
    by (rule Suc.IH [OF Suc.prems])
  also have "\<dots> = Some (Inr (acc @ map (\<lambda>k. y (f \<lparr>lng = 0, lat = south + real (Suc n - k) * step\<rparr>))
        [0..<Suc (Suc n)]))"
  proof -
    have "map (\<lambda>k. y (f \<lparr>lng = 0, lat = south + real (Suc n - k) * step\<rparr>)) [0..<Suc (Suc n)]
        = y (f \<lparr>lng = 0, lat = south + real (Suc n) * step\<rparr>)
          # map (\<lambda>k. y (f \<lparr>lng = 0, lat = south + real (n - k) * step\<rparr>)) [0..<Suc n]"
      by (subst upt_conv_Cons, simp, subst map_Suc_upt [symmetric]) (simp del: upt_Suc)
    then show ?thesis by simp
  qed
  finally show ?case .
qed

lemma verifyOptions_stepSize:
  assumes "verifyOptions options = Inr u"
  shows "0 < lat (stepSize options)" and "0 < lng (stepSize options)"
  using assms by (auto simp: verifyOptions_def split: if_splits)

text \<open>
  What \<^verbatim>\<open>createLayer\<close> returns, in exact arithmetic and with a projection that accepts
  every point, for options that pass the validation and the colour check and whose
  grid has dimensions.
\<close>

lemma createLayer_valid:
  assumes v: "verifyOptions options = Inr u"
    and c: "mapA (rowColors (getColor options)) (dataGrid options) = Inr cg"
    and d: "gridDimensions cg = Inr gs"
  shows "\<exists>layer. createLayer exact (never_throws f) options = Some (Inr layer)
     \<and> colorGrid layer = cg
     \<and> gridSize layer = gs
     \<and> latStepsMercator layer =
         map (\<lambda>k. y (f \<lparr>lng = 0, lat = lat (offset options)
                 + real (y gs - k) * lat (stepSize options)\<rparr>))
           [0..<Suc (y gs)]
     \<and> lngStepMercator layer =
         x (f \<lparr>lng = lng (offset options) + lng (stepSize options), lat = lat (offset options)\<rparr>)
           - x (f \<lparr>lng = lng (offset options), lat = lat (offset options)\<rparr>)
     \<and> topLeft (dataBoundsMercator layer) =
         f \<lparr>lng = lng (offset options), lat = lat (offset options)
                 + real (y gs) * lat (stepSize options)\<rparr>"
proof -
  have pos: "0 < lat (stepSize options)" using verifyOptions_stepSize(1) [OF v] .
  have loop: "latStepsLoop exact (never_throws f)
        (lat (ne (dataBounds exact options gs))) (lat (sw (dataBounds exact options gs)))
        (lat (stepSize options)) []
      = Some (Inr (map (\<lambda>k. y (f \<lparr>lng = 0, lat = lat (offset options)
                 + real (y gs - k) * lat (stepSize options)\<rparr>)) [0..<Suc (y gs)]))"
    using latStepsLoop_exact [OF pos, of f "lat (offset options)" "y gs" "[]"]
    by (simp add: dataBounds_def exact_def)
  show ?thesis
    unfolding createLayer_def
    by (simp only: v c d loop sum.case option.case)
       (simp add: boundsMercator_def dataBounds_def lngStep_def never_throws_def exact_def)
qed

text \<open>
  The latitude step table in exact arithmetic: one entry more than the rows have
  cells, the first the projection of the north bound, the last the projection of the
  south bound.
\<close>

lemma latStepsMercator_exact:
  assumes v: "verifyOptions options = Inr ()"
    and c: "mapA (rowColors (getColor options)) (dataGrid options) = Inr cg"
    and d: "gridDimensions cg = Inr gs"
  shows "\<exists>layer. createLayer exact (never_throws f) options = Some (Inr layer)
     \<and> length (latStepsMercator layer) = Suc (y (gridSize layer))
     \<and> latStepsMercator layer ! 0 =
         y (f \<lparr>lng = 0, lat = lat (offset options)
              + real (y (gridSize layer)) * lat (stepSize options)\<rparr>)
     \<and> latStepsMercator layer ! y (gridSize layer) =
         y (f \<lparr>lng = 0, lat = lat (offset options)\<rparr>)"
proof -
  let ?N = "y gs"
  from createLayer_valid [OF v c d, of f] obtain layer where
    l: "createLayer exact (never_throws f) options = Some (Inr layer)"
    and g: "gridSize layer = gs"
    and st: "latStepsMercator layer =
         map (\<lambda>k. y (f \<lparr>lng = 0, lat = lat (offset options)
                 + real (?N - k) * lat (stepSize options)\<rparr>)) [0..<Suc ?N]"
    by blast
  have "length (latStepsMercator layer) = Suc ?N" unfolding st by simp
  moreover have "latStepsMercator layer ! 0 =
         y (f \<lparr>lng = 0, lat = lat (offset options) + real ?N * lat (stepSize options)\<rparr>)"
    unfolding st by (simp add: nth_map del: upt_Suc)
  moreover have "latStepsMercator layer ! ?N = y (f \<lparr>lng = 0, lat = lat (offset options)\<rparr>)"
    unfolding st by (simp add: nth_map del: upt_Suc)
  ultimately show ?thesis using l g by simp
qed

section \<open>Construction in doubles, with the projection of mapbox-gl\<close>

lemma createLayer_mapbox:
  assumes v: "verifyOptions options = Inr u"
    and c: "mapA (rowColors (getColor options)) (dataGrid options) = Inr cg"
    and d: "gridDimensions cg = Inr gs"
    and n: "rnd (lat (offset options) + rnd (real (y gs) * lat (stepSize options))) = north"
    and b: "-90 \<le> north" "north \<le> 90"
    and loop: "latStepsLoop rnd (fromLngLat_mapbox rnd) north (lat (offset options))
                 (lat (stepSize options)) [] = Some (Inr steps)"
  shows "\<exists>layer. createLayer rnd (fromLngLat_mapbox rnd) options = Some (Inr layer)
     \<and> colorGrid layer = cg
     \<and> gridSize layer = gs
     \<and> latStepsMercator layer = steps
     \<and> lngStepMercator layer =
         rnd (rnd (rnd (180 + rnd (lng (offset options) + lng (stepSize options))) / 360)
              - rnd (rnd (180 + lng (offset options)) / 360))
     \<and> x (topLeft (dataBoundsMercator layer)) = rnd (rnd (180 + lng (offset options)) / 360)
     \<and> layer_opacity layer = opacity options"
proof -
  from v have o: "-90 \<le> lat (offset options)" "lat (offset options) \<le> 90"
    by (auto simp: verifyOptions_def split: if_splits)
  have loop': "latStepsLoop rnd (fromLngLat_mapbox rnd)
        (lat (ne (dataBounds rnd options gs))) (lat (sw (dataBounds rnd options gs)))
        (lat (stepSize options)) [] = Some (Inr steps)"
    using loop by (simp add: dataBounds_def n)
  show ?thesis
    unfolding createLayer_def
    apply (simp only: v c d loop' sum.case option.case)
    using o b
    apply (simp add: boundsMercator_def dataBounds_def lngStep_def fromLngLat_mapbox_def n)
    done
qed

text \<open>
  A grid whose north bound is beyond the pole: the projection of the north-west corner
  throws, and \<^verbatim>\<open>createLayer\<close> with it.
\<close>

lemma createLayer_mapbox_beyond_pole:
  assumes v: "verifyOptions options = Inr u"
    and c: "mapA (rowColors (getColor options)) (dataGrid options) = Inr cg"
    and d: "gridDimensions cg = Inr gs"
    and n: "90 < rnd (lat (offset options) + rnd (real (y gs) * lat (stepSize options)))"
  shows "createLayer rnd (fromLngLat_mapbox rnd) options
    = Some (Inl (Error ''Invalid LngLat latitude value: must be between -90 and 90''))"
proof -
  from v have o: "-90 \<le> lat (offset options)" "lat (offset options) \<le> 90"
    by (auto simp: verifyOptions_def split: if_splits)
  show ?thesis
    unfolding createLayer_def
    apply (simp only: v c d sum.case)
    using o n
    apply (simp add: boundsMercator_def dataBounds_def fromLngLat_mapbox_def)
    done
qed

lemma boundsMercator_mapbox:
  assumes "-90 \<le> lat (sw b)" "lat (sw b) \<le> 90" "-90 \<le> lat (ne b)" "lat (ne b) \<le> 90"
  shows "\<exists>dbm. boundsMercator rnd (fromLngLat_mapbox rnd) b = Inr dbm"
  using assms by (simp add: boundsMercator_def fromLngLat_mapbox_def)

text \<open>The README's options, in doubles.\<close>

lemma readme_fields:
  "lat (offset (readme_options binary64)) = 2103321763470377 / 2 ^ 45"
  "lng (offset (readme_options binary64)) = 5967269506265907 / 2 ^ 49"
  "lat (stepSize (readme_options binary64)) = 3602879701896397 / 2 ^ 55"
  "lng (stepSize (readme_options binary64)) = 3602879701896397 / 2 ^ 55"
  "opacity (readme_options binary64) = 1 / 4"
  "dataGrid (readme_options binary64) = grid [[1, 1, 2], [1, 2, 3], [2, 3, 3]]"
  by (simp_all only: readme_options_def IChoroplethGridLayerOptions.simps LngLat.simps
        binary64_5978 binary64_106 binary64_tenth)

lemma readme_verifyOptions: "verifyOptions (readme_options binary64) = Inr ()"
  unfolding verifyOptions_def
  by (simp only: readme_fields)
     (simp add: rowLengthMatches_def rowDefined_def grid_def array_def elem_def)

lemma readme_colorGrid:
  "mapA (rowColors (getColor (readme_options rnd))) (dataGrid (readme_options rnd)) =
     Inr (array (map array
       [[(255, 0, 0, 255), (255, 0, 0, 255), (0, 255, 0, 255)],
        [(255, 0, 0, 255), (0, 255, 0, 255), (0, 0, 255, 255)],
        [(0, 255, 0, 255), (0, 0, 255, 255), (0, 0, 255, 255)]]))"
  by (simp add: readme_options_def rowColors_def cellColor_def grid_def array_def)

lemma readme_gridDimensions:
  "gridDimensions (array (map array
       [[(255, 0, 0, 255), (255, 0, 0, 255), (0, 255, 0, 255)],
        [(255, 0, 0, 255), (0, 255, 0, 255), (0, 0, 255, 255)],
        [(0, 255, 0, 255), (0, 0, 255, 255), (0, 0, 255, 255)]])) = Inr \<lparr>x = 3, y = 3\<rparr>"
  by (simp add: gridDimensions_def array_def elem_def)

lemma binary64_three_steps:
  "binary64 (real (3::nat) * (3602879701896397 / 2 ^ 55)) = 1351079888211149 / 2 ^ 52"
  unfolding binary64_def
  by (subst round_to_eval [where k = "-2"]) (simp_all add: rne_def Let_def powr_minus)

lemma readme_north:
  "binary64 (lat (offset (readme_options binary64))
      + binary64 (real (y \<lparr>x = 3, y = 3::nat\<rparr>) * lat (stepSize (readme_options binary64))))
   = 4227754150194053 / 2 ^ 46"
  by (simp only: readme_fields vec2.simps binary64_three_steps binary64_north)

text \<open>
  C3. For the README's example (rows of three cells, \<^verbatim>\<open>offset.lat\<close> 59.78,
  \<^verbatim>\<open>stepSize.lat\<close> 0.1) the latitude loop, in doubles, pushes three entries and not
  four: the projections of 60.08, 59.98 and 59.879999999999995. The next latitude,
  59.779999999999994, is below the south bound 59.78, whose projection is never
  pushed.
\<close>

theorem latStepsMercator_readme_three_entries:
  "\<exists>layer. createLayer binary64 (fromLngLat_mapbox binary64) (readme_options binary64) = Some (Inr layer)
     \<and> gridSize layer = \<lparr>x = 3, y = 3\<rparr>
     \<and> length (latStepsMercator layer) = 3
     \<and> latStepsMercator layer =
          [binary64 (y (webMercator \<lparr>lng = 0, lat = 4227754150194053 / 2 ^ 46\<rparr>)),
           binary64 (y (webMercator \<lparr>lng = 0, lat = 8441434551552573 / 2 ^ 47\<rparr>)),
           binary64 (y (webMercator \<lparr>lng = 0, lat = 526710050169815 / 2 ^ 43\<rparr>))]"
proof -
  let ?steps = "[binary64 (y (webMercator \<lparr>lng = 0, lat = 4227754150194053 / 2 ^ 46\<rparr>)),
           binary64 (y (webMercator \<lparr>lng = 0, lat = 8441434551552573 / 2 ^ 47\<rparr>)),
           binary64 (y (webMercator \<lparr>lng = 0, lat = 526710050169815 / 2 ^ 43\<rparr>))]"
  have loop: "latStepsLoop binary64 (fromLngLat_mapbox binary64) (4227754150194053 / 2 ^ 46)
      (lat (offset (readme_options binary64))) (lat (stepSize (readme_options binary64))) []
      = Some (Inr ?steps)"
    by (simp only: readme_fields latStepsLoop_readme append_Nil)
  from createLayer_mapbox [OF readme_verifyOptions readme_colorGrid readme_gridDimensions
      readme_north _ _ loop]
  show ?thesis by auto
qed

text \<open>The lower bound of the offset's longitude is tested on the longitude.\<close>

lemma verifyOptions_rejects_longitude_below:
  "lng (offset options) < -180 \<Longrightarrow> \<exists>msg. verifyOptions options = Inl (Error msg)"
  by (simp add: verifyOptions_def)

text \<open>
  C4. The test for the offset's longitude reads \<^verbatim>\<open>offset.lat > 180\<close>: with
  \<^verbatim>\<open>offset.lng = 200\<close> and every other field of the README's example kept, validation
  passes and \<^verbatim>\<open>createLayer\<close> returns a layer, in doubles with the projection of
  mapbox-gl as in exact arithmetic with Web Mercator.
\<close>

theorem verifyOptions_accepts_longitude_200:
  "verifyOptions ((readme_options binary64)\<lparr>offset := \<lparr>lng = 200, lat = binary64 (5978 / 100)\<rparr>\<rparr>) = Inr ()
   \<and> (\<exists>layer. createLayer binary64 (fromLngLat_mapbox binary64)
          ((readme_options binary64)\<lparr>offset := \<lparr>lng = 200, lat = binary64 (5978 / 100)\<rparr>\<rparr>)
          = Some (Inr layer))
   \<and> verifyOptions ((readme_options exact)\<lparr>offset := \<lparr>lng = 200, lat = 5978 / 100\<rparr>\<rparr>) = Inr ()
   \<and> (\<exists>layer. createLayer exact (never_throws webMercator)
          ((readme_options exact)\<lparr>offset := \<lparr>lng = 200, lat = 5978 / 100\<rparr>\<rparr>)
          = Some (Inr layer))"
proof -
  let ?options = "(readme_options binary64)\<lparr>offset := \<lparr>lng = 200, lat = binary64 (5978 / 100)\<rparr>\<rparr>"
  let ?ideal = "(readme_options exact)\<lparr>offset := \<lparr>lng = 200, lat = 5978 / 100\<rparr>\<rparr>"
  have o: "offset ?options = \<lparr>lng = 200, lat = binary64 (5978 / 100)\<rparr>"
    by simp
  have f: "lat (offset ?options) = 2103321763470377 / 2 ^ 45"
    "lng (offset ?options) = 200"
    by (simp_all only: o, simp_all only: LngLat.simps binary64_5978)
  have g: "stepSize ?options = stepSize (readme_options binary64)"
    "opacity ?options = opacity (readme_options binary64)"
    "dataGrid ?options = dataGrid (readme_options binary64)"
    "getColor ?options = getColor (readme_options binary64)"
    by simp_all
  have v: "verifyOptions ?options = Inr ()"
    unfolding verifyOptions_def
    by (simp only: f g readme_fields)
       (simp add: rowLengthMatches_def rowDefined_def grid_def array_def elem_def)
  have c: "mapA (rowColors (getColor ?options)) (dataGrid ?options) =
     Inr (array (map array
       [[(255, 0, 0, 255), (255, 0, 0, 255), (0, 255, 0, 255)],
        [(255, 0, 0, 255), (0, 255, 0, 255), (0, 0, 255, 255)],
        [(0, 255, 0, 255), (0, 0, 255, 255), (0, 0, 255, 255)]]))"
    by (simp only: g readme_colorGrid)
  have n: "binary64 (lat (offset ?options)
      + binary64 (real (y \<lparr>x = 3, y = 3::nat\<rparr>) * lat (stepSize ?options)))
      = 4227754150194053 / 2 ^ 46"
    by (simp only: f g readme_fields vec2.simps binary64_three_steps binary64_north)
  have loop: "latStepsLoop binary64 (fromLngLat_mapbox binary64) (4227754150194053 / 2 ^ 46)
      (lat (offset ?options)) (lat (stepSize ?options)) []
      = Some (Inr [binary64 (y (webMercator \<lparr>lng = 0, lat = 4227754150194053 / 2 ^ 46\<rparr>)),
           binary64 (y (webMercator \<lparr>lng = 0, lat = 8441434551552573 / 2 ^ 47\<rparr>)),
           binary64 (y (webMercator \<lparr>lng = 0, lat = 526710050169815 / 2 ^ 43\<rparr>))])"
    by (simp only: f g readme_fields latStepsLoop_readme append_Nil)
  from createLayer_mapbox [OF v c readme_gridDimensions n _ _ loop]
  have l: "\<exists>layer. createLayer binary64 (fromLngLat_mapbox binary64) ?options = Some (Inr layer)"
    by auto
  have v': "verifyOptions ?ideal = Inr ()"
    by (simp add: verifyOptions_def readme_options_def exact_def rowLengthMatches_def
          rowDefined_def grid_def array_def elem_def)
  have c': "mapA (rowColors (getColor ?ideal)) (dataGrid ?ideal) =
     Inr (array (map array
       [[(255, 0, 0, 255), (255, 0, 0, 255), (0, 255, 0, 255)],
        [(255, 0, 0, 255), (0, 255, 0, 255), (0, 0, 255, 255)],
        [(0, 255, 0, 255), (0, 0, 255, 255), (0, 0, 255, 255)]]))"
    using readme_colorGrid [of exact] by simp
  from createLayer_valid [OF v' c' readme_gridDimensions, of webMercator]
  have l': "\<exists>layer. createLayer exact (never_throws webMercator) ?ideal = Some (Inr layer)"
    by blast
  from v l v' l' show ?thesis by (intro conjI)
qed

text \<open>The north bound of an empty grid at 59.78: \<^verbatim>\<open>59.78 + 0 * 1e-15\<close> is 59.78.\<close>

lemma binary64_no_rows:
  "binary64 (2103321763470377 / 2 ^ 45 + binary64 (real (0::nat) * (2535301200456459 / 2 ^ 101)))
   = 2103321763470377 / 2 ^ 45"
proof -
  have z: "binary64 (real (0::nat) * (2535301200456459 / 2 ^ 101)) = 0"
    by (simp add: binary64_def round_to_def)
  show ?thesis by (simp only: z add_0_right binary64_south)
qed

text \<open>
  C10. For the empty grid, \<^verbatim>\<open>offset.lat\<close> 59.78 and \<^verbatim>\<open>stepSize.lat\<close> 1e-15 (the other
  options those of the README's example) validation passes and \<^verbatim>\<open>createLayer\<close> never
  returns: the north bound is the south bound, and in doubles
  \<^verbatim>\<open>59.78 - 1e-15\<close> is 59.78, so that \<^verbatim>\<open>lat -= stepSize.lat\<close> leaves \<^verbatim>\<open>lat\<close> as it is
  and \<^verbatim>\<open>lat >= sw.lat\<close> holds forever.
\<close>

theorem createLayer_empty_grid_never_returns:
  "verifyOptions ((readme_options binary64)
       \<lparr>dataGrid := [], stepSize := \<lparr>lng = binary64 (1 / 10), lat = binary64 (1 / 10 ^ 15)\<rparr>\<rparr>) = Inr ()
   \<and> createLayer binary64 (fromLngLat_mapbox binary64) ((readme_options binary64)
       \<lparr>dataGrid := [], stepSize := \<lparr>lng = binary64 (1 / 10), lat = binary64 (1 / 10 ^ 15)\<rparr>\<rparr>) = None"
proof -
  let ?options = "(readme_options binary64)
       \<lparr>dataGrid := [], stepSize := \<lparr>lng = binary64 (1 / 10), lat = binary64 (1 / 10 ^ 15)\<rparr>\<rparr>"
  have st: "stepSize ?options = \<lparr>lng = binary64 (1 / 10), lat = binary64 (1 / 10 ^ 15)\<rparr>"
    by simp
  have f: "lat (stepSize ?options) = 2535301200456459 / 2 ^ 101"
    "lng (stepSize ?options) = 3602879701896397 / 2 ^ 55"
    by (simp_all only: st, simp_all only: LngLat.simps binary64_tiny binary64_tenth)
  have g: "offset ?options = offset (readme_options binary64)"
    "opacity ?options = opacity (readme_options binary64)"
    "dataGrid ?options = []"
    by simp_all
  have v: "verifyOptions ?options = Inr ()"
    unfolding verifyOptions_def
    by (simp only: f g readme_fields) simp
  have c: "mapA (rowColors (getColor ?options)) (dataGrid ?options) = Inr []"
    by (simp only: g mapA.simps)
  have d: "gridDimensions [] = Inr \<lparr>x = 0, y = 0\<rparr>"
    by (simp add: gridDimensions_def)
  have n: "lat (ne (dataBounds binary64 ?options \<lparr>x = 0, y = 0\<rparr>)) = 2103321763470377 / 2 ^ 45"
    unfolding dataBounds_def
    by (simp only: f g readme_fields Bounds.simps LngLat.simps vec2.simps binary64_no_rows)
  have s: "lat (sw (dataBounds binary64 ?options \<lparr>x = 0, y = 0\<rparr>)) = 2103321763470377 / 2 ^ 45"
    unfolding dataBounds_def
    by (simp only: f g readme_fields Bounds.simps LngLat.simps)
  have "\<exists>dbm. boundsMercator binary64 (fromLngLat_mapbox binary64)
      (dataBounds binary64 ?options \<lparr>x = 0, y = 0\<rparr>) = Inr dbm"
    by (rule boundsMercator_mapbox) (simp_all only: n s, simp_all)
  then obtain dbm where b: "boundsMercator binary64 (fromLngLat_mapbox binary64)
      (dataBounds binary64 ?options \<lparr>x = 0, y = 0\<rparr>) = Inr dbm" ..
  have "createLayer binary64 (fromLngLat_mapbox binary64) ?options = None"
    unfolding createLayer_def
    by (simp only: v c d b sum.case n s f latStepsLoop_absorbed_step option.case)
  with v show ?thesis by (intro conjI)
qed

section \<open>The example projection is Mercator-style\<close>


lemma webMercator_y_decreasing:
  assumes "-90 < south" "north < 90"
  shows "y_decreasing_in_latitude south north webMercator"
  unfolding y_decreasing_in_latitude_def
proof (intro allI impI)
  fix p q :: LngLat
  assume h: "south \<le> lat p \<and> lat p < lat q \<and> lat q \<le> north"
  let ?a = "pi / 4 + lat p * pi / 360" and ?b = "pi / 4 + lat q * pi / 360"
  have pa: "-90 < lat p" and qb: "lat q < 90" and pq: "lat p < lat q" using h assms by auto
  have "lat p * pi > -90 * pi" using pa pi_gt_zero by (simp only: mult_less_cancel_right_pos)
  then have a0: "0 < ?a" by linarith
  have "lat q * pi < 90 * pi" using qb pi_gt_zero by (simp only: mult_less_cancel_right_pos)
  then have b1: "?b < pi / 2" by linarith
  have "lat p * pi < lat q * pi" using pq pi_gt_zero by (simp only: mult_less_cancel_right_pos)
  then have ab: "?a < ?b" by linarith
  have am: "- (pi / 2) < ?a" using a0 pi_gt_zero by linarith
  have a1: "?a < pi / 2" using ab b1 by linarith
  have "tan ?a < tan ?b" by (rule tan_monotone [OF am ab b1])
  moreover have "0 < tan ?a" by (rule tan_gt_zero [OF a0 a1])
  ultimately have "ln (tan ?a) < ln (tan ?b)" by simp
  then have "180 / pi * ln (tan ?a) < 180 / pi * ln (tan ?b)"
    using pi_gt_zero by (simp add: divide_strict_right_mono)
  then show "y (webMercator q) < y (webMercator p)"
    by (simp add: webMercator_def)
qed

lemma y_decreasingD:
  "y_decreasing_in_latitude south north f \<Longrightarrow> south \<le> lat p \<Longrightarrow> lat p < lat q
    \<Longrightarrow> lat q \<le> north \<Longrightarrow> y (f q) < y (f p)"
  unfolding y_decreasing_in_latitude_def by blast

text \<open>
  With such a projection the table \<^verbatim>\<open>createLayer\<close> builds in exact arithmetic
  ascends: it is a table the shader's scan is meant for.
\<close>

lemma latStepsMercator_sorted:
  assumes v: "verifyOptions options = Inr ()"
    and c: "mapA (rowColors (getColor options)) (dataGrid options) = Inr cg"
    and d: "gridDimensions cg = Inr gs"
    and dec: "y_decreasing_in_latitude (lat (offset options))
                (lat (offset options) + real (y gs) * lat (stepSize options)) f"
  shows "\<exists>layer. createLayer exact (never_throws f) options = Some (Inr layer)
     \<and> length (latStepsMercator layer) = Suc (y (gridSize layer))
     \<and> sorted (latStepsMercator layer)"
proof -
  let ?N = "y gs"
  let ?s = "lat (stepSize options)" and ?o = "lat (offset options)"
  let ?steps = "map (\<lambda>k. y (f \<lparr>lng = 0, lat = ?o + real (?N - k) * ?s\<rparr>)) [0..<Suc ?N]"
  from createLayer_valid [OF v c d, of f] obtain layer where
    l: "createLayer exact (never_throws f) options = Some (Inr layer)"
    and g: "gridSize layer = gs"
    and st: "latStepsMercator layer = ?steps"
    by blast
  have pos: "0 < ?s" using verifyOptions_stepSize(1) [OF v] .
  have "?steps ! a \<le> ?steps ! b" if "a \<le> b" "b < length ?steps" for a b
  proof (cases "a = b")
    case True
    then show ?thesis by simp
  next
    case False
    define La where "La = ?o + real (?N - a) * ?s"
    define Lb where "Lb = ?o + real (?N - b) * ?s"
    have ab: "a < b" "b \<le> ?N" using False that by simp_all
    then have "real (?N - b) < real (?N - a)" by linarith
    then have lt: "Lb < La" unfolding La_def Lb_def using pos by simp
    have ge: "?o \<le> Lb" unfolding Lb_def using pos by simp
    have "real (?N - a) * ?s \<le> real ?N * ?s" using pos by simp
    then have le: "La \<le> ?o + real ?N * ?s" unfolding La_def by simp
    have "y (f \<lparr>lng = 0, lat = La\<rparr>) < y (f \<lparr>lng = 0, lat = Lb\<rparr>)"
      using ge lt le by (intro y_decreasingD [OF dec]) simp_all
    moreover have "?steps ! a = y (f \<lparr>lng = 0, lat = La\<rparr>)"
      using ab unfolding La_def by (simp add: nth_map del: upt_Suc)
    moreover have "?steps ! b = y (f \<lparr>lng = 0, lat = Lb\<rparr>)"
      using ab unfolding Lb_def by (simp add: nth_map del: upt_Suc)
    ultimately show ?thesis by simp
  qed
  then have "sorted ?steps" by (simp only: sorted_iff_nth_mono) blast
  moreover have "length ?steps = Suc ?N" by simp
  ultimately show ?thesis using l g st by auto
qed

section \<open>The longitude step\<close>



section \<open>The latitude scan: breaking at the first failure loses nothing\<close>

lemma filter_upt_prefix:
  "i \<le> n \<Longrightarrow> (\<And>k. k < i \<Longrightarrow> P k) \<Longrightarrow> (\<And>k. i \<le> k \<Longrightarrow> k < n \<Longrightarrow> \<not> P k)
    \<Longrightarrow> filter P [0..<n] = [0..<i]"
proof (induction n)
  case 0
  then show ?case by simp
next
  case (Suc n)
  show ?case
  proof (cases "i = Suc n")
    case True
    then have "\<forall>k \<in> set [0..<Suc n]. P k" using Suc.prems(2) by auto
    then have "filter P [0..<Suc n] = [0..<Suc n]" by (simp only: filter_True)
    with True show ?thesis by simp
  next
    case False
    with Suc.prems(1) have le: "i \<le> n" by simp
    have "filter P [0..<n] = [0..<i]"
      using Suc.IH [OF le] Suc.prems(2,3) by auto
    moreover have "\<not> P n" using Suc.prems(3) [of n] le by simp
    ultimately show ?thesis by simp
  qed
qed

lemma full_scan_prefix:
  assumes "i \<le> length steps"
    and "\<And>k. k < i \<Longrightarrow> fy \<ge> steps ! k"
    and "\<And>k. i \<le> k \<Longrightarrow> k < length steps \<Longrightarrow> \<not> fy \<ge> steps ! k"
  shows "latIndex_full_scan fy steps = i - 1"
proof -
  have "filter (\<lambda>k. fy \<ge> steps ! k) [0..<length steps] = [0..<i]"
    using assms by (intro filter_upt_prefix) auto
  then show ?thesis
    by (cases i) (simp_all add: latIndex_full_scan_def)
qed

text \<open>
  The loop's invariant on an ascending table: at index \<open>i\<close> every earlier entry
  passed the test, and \<open>latIndexInt\<close> is the last of them.
\<close>

lemma latIndexLoop_sorted:
  "sorted steps \<Longrightarrow> n = length steps \<Longrightarrow> i \<le> n \<Longrightarrow> (\<And>k. k < i \<Longrightarrow> fy \<ge> steps ! k)
    \<Longrightarrow> acc = i - 1 \<Longrightarrow> latIndexLoop fy steps n i acc = latIndex_full_scan fy steps"
proof (induction fy steps n i acc rule: latIndexLoop.induct)
  case (1 fy steps numLatSteps i latIndexInt)
  show ?case
  proof (cases "i < numLatSteps")
    case False
    with 1 have "i = length steps" by simp
    then have "latIndex_full_scan fy steps = i - 1"
      using "1.prems"(4) by (intro full_scan_prefix) auto
    with False "1.prems"(5) show ?thesis by simp
  next
    case True
    show ?thesis
    proof (cases "fy \<ge> latStepAt steps i")
      case ge: True
      have "latIndexLoop fy steps numLatSteps (Suc i) i = latIndex_full_scan fy steps"
      proof (rule "1.IH" [OF True ge "1.prems"(1,2)])
        show "Suc i \<le> numLatSteps" using True by simp
        show "steps ! k \<le> fy" if "k < Suc i" for k
          using that ge True "1.prems"(2,4) by (cases "k = i") (auto simp: latStepAt_def)
        show "i = Suc i - 1" by simp
      qed
      with True ge show ?thesis by simp
    next
      case lt: False
      have "latIndex_full_scan fy steps = i - 1"
      proof (rule full_scan_prefix)
        show "i \<le> length steps" using "1.prems" by simp
        show "steps ! k \<le> fy" if "k < i" for k using that "1.prems"(4) by simp
        show "\<not> steps ! k \<le> fy" if "i \<le> k" "k < length steps" for k
        proof -
          have "steps ! i \<le> steps ! k"
            using "1.prems"(1) that by (simp add: sorted_iff_nth_mono)
          moreover have "fy < steps ! i"
            using lt True "1.prems"(2) by (simp add: latStepAt_def)
          ultimately show ?thesis by simp
        qed
      qed
      with True lt "1.prems"(5) show ?thesis by simp
    qed
  qed
qed

text \<open>
  C5. On a latitude step table whose values ascend (the construction order, north to
  south, of Mercator \<open>y\<close>), and for every fragment \<open>y\<close>, the shader's loop, which
  records the last index whose entry is at most \<open>y\<close> and breaks at the first entry
  above it, returns the index a scan of the whole table returns: the largest index
  whose entry is at most \<open>y\<close>, or 0 when there is none.
\<close>

theorem latIndexLoop_eq_full_scan:
  "sorted steps \<Longrightarrow> latIndexLoop fy steps (length steps) 0 0 = latIndex_full_scan fy steps"
proof -
  assume asc: "sorted steps"
  have start: "(0 :: nat) = 0 - 1" by simp
  have none_yet: "fy \<ge> steps ! k" if "k < 0" for k using that by simp
  show ?thesis
    by (rule latIndexLoop_sorted [OF asc refl le0 none_yet start])
qed

theorem latIndexLoop_eq_full_scan_witness:
  "sorted [1 / 10, 2 / 10, 3 / 10 :: real]
   \<and> latIndexLoop (1 / 4) [1 / 10, 2 / 10, 3 / 10] (length [1 / 10, 2 / 10, 3 / 10 :: real]) 0 0 = 1
   \<and> latIndex_full_scan (1 / 4) [1 / 10, 2 / 10, 3 / 10] = 1"
proof -
  have s: "sorted [1 / 10, 2 / 10, 3 / 10 :: real]" by simp
  have v: "latIndex_full_scan (1 / 4) [1 / 10, 2 / 10, 3 / 10 :: real] = 1"
    by (simp add: latIndex_full_scan_def upt_rec)
  show ?thesis using s v latIndexLoop_eq_full_scan [OF s, of "1 / 4"] by simp
qed

section \<open>The texture data of layer.ts, for a grid with no hole\<close>

lemma nth_concat_uniform:
  "\<forall>xs \<in> set xss. length xs = m \<Longrightarrow> r < length xss \<Longrightarrow> c < m
    \<Longrightarrow> concat xss ! (r * m + c) = xss ! r ! c"
proof (induction xss arbitrary: r)
  case Nil
  then show ?case by simp
next
  case (Cons xs xss)
  show ?case
  proof (cases r)
    case 0
    with Cons.prems show ?thesis by (simp add: nth_append)
  next
    case (Suc r')
    with Cons.prems have "concat xss ! (r' * m + c) = xss ! r' ! c"
      by (intro Cons.IH) auto
    moreover have "length xs = m" using Cons.prems by simp
    ultimately show ?thesis using Suc by (simp add: nth_append)
  qed
qed

lemma length_concat_uniform:
  "\<forall>xs \<in> set xss. length xs = m \<Longrightarrow> length (concat xss) = length xss * m"
  by (induction xss) auto

lemma length_rgba_items [simp]: "length (rgba_items c) = 4"
  by (cases c) auto

lemma mapE_spreadItem_Some: "mapE spreadItem (map Some cs) = Inr (map rgba_items cs)"
  by (induction cs) (auto simp: spreadItem_def)

lemma present_array [simp]: "present (array xs) = xs"
  by (induction xs) (simp_all add: present_def array_def)

lemma length_array [simp]: "length (array xs) = length xs"
  by (simp add: array_def)

lemma nth_array [simp]: "i < length xs \<Longrightarrow> array xs ! i = Has (xs ! i)"
  by (simp add: array_def)

lemma elem_array: "elem (array xs) i = (if i < length xs then Some (xs ! i) else None)"
  by (simp add: elem_def)

lemma rev_array: "rev (array xs) = array (rev xs)"
  by (simp add: array_def rev_map)

lemma grid_Nil [simp]: "grid [] = []"
  by (simp add: grid_def array_def)

lemma grid_Cons [simp]: "grid (r # rs) = Has (Some (array r)) # grid rs"
  by (simp add: grid_def array_def)

lemma take_drop_rgba:
  "k < length cs \<Longrightarrow> take 4 (drop (k * 4) (concat (map rgba_items cs))) = rgba_items (cs ! k)"
proof (induction cs arbitrary: k)
  case Nil
  then show ?case by simp
next
  case (Cons c cs)
  then show ?case by (cases k) auto
qed


lemma transposed_rect:
  assumes rect: "\<forall>row \<in> set cg. length row = n" and ne: "cg \<noteq> []"
  shows "transposed (array (map array cg))
    = Inr (array (map (\<lambda>j. array (map (\<lambda>row. Some (row ! j)) cg)) [0..<n]))"
proof -
  have first: "elem (array (map array cg)) 0 = Some (array (cg ! 0))"
    using ne by (simp add: elem_array)
  have n: "length (cg ! 0) = n" using rect ne by simp
  have row: "map (map_slot (\<lambda>row. elem row i)) (array (map array cg))
        = array (map (\<lambda>row. Some (row ! i)) cg)" if "i < n" for i
    using rect that by (simp add: array_def elem_def)
  have m: "map (\<lambda>i. map_slot (\<lambda>_. map (map_slot (\<lambda>row. elem row i)) (array (map array cg)))
                  (array (cg ! 0) ! i)) [0..<n]
      = map (\<lambda>i. Has (array (map (\<lambda>row. Some (row ! i)) cg))) [0..<n]"
  proof (rule map_cong [OF refl])
    fix i assume "i \<in> set [0..<n]"
    then have i: "i < n" by simp
    have "array (cg ! 0) ! i = Has (cg ! 0 ! i)" using i n by simp
    then show "map_slot (\<lambda>_. map (map_slot (\<lambda>row. elem row i)) (array (map array cg)))
                  (array (cg ! 0) ! i) = Has (array (map (\<lambda>row. Some (row ! i)) cg))"
      by (simp only: row [OF i] slot.map)
  qed
  show ?thesis
    unfolding transposed_def
    by (simp only: first option.case length_array n m) (simp add: array_def comp_def)
qed

lemma flat_rect:
  assumes "\<forall>row \<in> set cg. length row = n" "cg \<noteq> []"
  shows "flat (array (map array cg)) = Inr (concat (map rgba_items
            (concat (rev (map (\<lambda>j. map (\<lambda>row. row ! j) cg) [0..<n])))))"
proof -
  let ?T = "map (\<lambda>j. map (\<lambda>row. Some (row ! j)) cg) [0..<n]"
  have t: "transposed (array (map array cg)) = Inr (array (map array ?T))"
    using transposed_rect [OF assms] by (simp add: comp_def)
  have "concat (map present (present (rev (array (map array ?T))))) = concat (rev ?T)"
    by (simp add: rev_array rev_map comp_def)
  also have "\<dots> = map Some (concat (rev (map (\<lambda>j. map (\<lambda>row. row ! j) cg) [0..<n])))"
    by (simp add: map_concat rev_map comp_def)
  finally show ?thesis
    unfolding flat_def by (simp only: t sum.case mapE_spreadItem_Some)
qed

lemma pushed_cells_nth:
  assumes "\<forall>row \<in> set cg. length row = n" "i < length cg" "j < n"
  shows "concat (rev (map (\<lambda>j. map (\<lambda>row. row ! j) cg) [0..<n])) ! ((n - 1 - j) * length cg + i)
         = cg ! i ! j"
proof -
  let ?T = "map (\<lambda>j. map (\<lambda>row. row ! j) cg) [0..<n]"
  have "concat (rev ?T) ! ((n - 1 - j) * length cg + i) = rev ?T ! (n - 1 - j) ! i"
    using assms by (intro nth_concat_uniform) auto
  also have "rev ?T ! (n - 1 - j) = ?T ! j"
    using assms by (simp add: rev_nth)
  also have "?T ! j ! i = cg ! i ! j" using assms by simp
  finally show ?thesis .
qed

lemma pushed_cells_length:
  "length (concat (map (\<lambda>j. map (\<lambda>row. row ! j) cg) [0..<n])) = n * length cg"
  by (subst length_concat_uniform [where m = "length cg"]) auto

text \<open>
  For a rectangular colour grid of \<open>M\<close> rows of \<open>n\<close> colours, none missing, the data
  is the row-reversed transpose, flattened: texel \<open>(column i, row n - 1 - j)\<close>, that is
  bytes \<open>((n - 1 - j) * M + i) * 4 + c\<close>, holds \<^verbatim>\<open>colorGrid[i][j]\<close>.
\<close>

lemma gridData_rect:
  assumes "\<forall>row \<in> set cg. length row = n" "cg \<noteq> []"
  shows "\<exists>data. gridData (array (map array cg)) = Inr data \<and> length data = length cg * n * 4
    \<and> (\<forall>i j. i < length cg \<and> j < n \<longrightarrow>
         texel (length cg) data i (n - 1 - j) = map word_of_int (rgba_items (cg ! i ! j))
         \<and> (\<forall>c < 4. data ! (((n - 1 - j) * length cg + i) * 4 + c)
               = word_of_int (rgba_items (cg ! i ! j) ! c)))"
proof -
  let ?cs = "concat (rev (map (\<lambda>j. map (\<lambda>row. row ! j) cg) [0..<n]))"
  let ?data = "Uint8Array (concat (map rgba_items ?cs))"
  have g: "gridData (array (map array cg)) = Inr ?data"
    using flat_rect [OF assms] by (simp add: gridData_def)
  have len: "length ?data = length cg * n * 4"
    by (simp add: Uint8Array_def length_concat_uniform [where m = 4] pushed_cells_length)
  have cell: "texel (length cg) ?data i (n - 1 - j) = map word_of_int (rgba_items (cg ! i ! j))
      \<and> (\<forall>c < 4. ?data ! (((n - 1 - j) * length cg + i) * 4 + c)
               = word_of_int (rgba_items (cg ! i ! j) ! c))"
    if "i < length cg" "j < n" for i j
  proof -
    let ?k = "(n - 1 - j) * length cg + i"
    have "n - 1 - j < n" using that by simp
    then have "(n - 1 - j) * length cg + length cg \<le> n * length cg"
      by (metis Suc_leI mult_Suc mult_le_mono1 add.commute)
    then have k: "?k < length ?cs" using that by (simp add: pushed_cells_length)
    have ck: "?cs ! ?k = cg ! i ! j" using pushed_cells_nth [OF assms(1) that] .
    have "texel (length cg) ?data i (n - 1 - j)
        = map word_of_int (take 4 (drop (?k * 4) (concat (map rgba_items ?cs))))"
      by (simp add: texel_def Uint8Array_def take_map drop_map)
    also have "\<dots> = map word_of_int (rgba_items (cg ! i ! j))"
      using take_drop_rgba [OF k] ck by simp
    finally have t: "texel (length cg) ?data i (n - 1 - j) = map word_of_int (rgba_items (cg ! i ! j))" .
    have "?data ! (?k * 4 + c) = word_of_int (rgba_items (cg ! i ! j) ! c)" if "c < 4" for c
    proof -
      have "concat (map rgba_items ?cs) ! (?k * 4 + c) = map rgba_items ?cs ! ?k ! c"
        using k that by (intro nth_concat_uniform) auto
      moreover have "?k * 4 + c < length (concat (map rgba_items ?cs))"
        using k that by (simp add: length_concat_uniform [where m = 4])
      ultimately show ?thesis using k ck by (simp add: Uint8Array_def)
    qed
    with t show ?thesis by blast
  qed
  from g len cell show ?thesis by blast
qed

lemma uint_byte: "0 \<le> c \<Longrightarrow> c \<le> 255 \<Longrightarrow> uint (word_of_int c :: 8 word) = c"
  by (simp add: uint_word_of_int take_bit_eq_mod)

lemma map_uint_bytes:
  "list_all (\<lambda>c. 0 \<le> c \<and> c \<le> 255) cs \<Longrightarrow> map uint (map word_of_int cs :: 8 word list) = cs"
  by (induction cs) (auto simp: uint_byte)

text \<open>What validation and the colour check give for a grid with no hole.\<close>

lemma every_rowLengthMatches_grid:
  "every (rowLengthMatches d) (grid rs) = Inr True \<Longrightarrow> r \<in> set rs
    \<Longrightarrow> \<exists>r0. elem d 0 = Some (Some r0) \<and> length r = length r0"
proof (induction rs)
  case Nil
  then show ?case by simp
next
  case (Cons r' rs)
  from Cons.prems(1) have hd: "rowLengthMatches d (Some (array r')) = Inr True"
    and rest: "every (rowLengthMatches d) (grid rs) = Inr True"
    by (auto split: sum.splits if_splits)
  from hd have "\<exists>r0. elem d 0 = Some (Some r0) \<and> length r' = length r0"
    by (auto simp: rowLengthMatches_def split: option.splits)
  with Cons.IH [OF rest] Cons.prems(2) show ?case by auto
qed

lemma mapA_cellColor_array:
  "mapA (cellColor gc) (array r) = Inr cs \<Longrightarrow>
   cs = array (map gc r) \<and> (\<forall>p \<in> set r. list_all (\<lambda>c. 0 \<le> c \<and> c \<le> 255) (rgba_items (gc p)))"
proof (induction r arbitrary: cs)
  case Nil
  then show ?case by (simp add: array_def)
next
  case (Cons p r)
  from Cons.prems obtain q qs where
    q: "cellColor gc p = Inr q" and qs: "mapA (cellColor gc) (array r) = Inr qs"
    and cs: "cs = Has q # qs"
    by (auto simp: array_def split: sum.splits)
  from q have "q = gc p \<and> list_all (\<lambda>c. 0 \<le> c \<and> c \<le> 255) (rgba_items (gc p))"
    by (auto simp: cellColor_def Let_def split: if_splits)
  with Cons.IH [OF qs] cs show ?case by (simp add: array_def)
qed

lemma mapA_rowColors_grid:
  "mapA (rowColors gc) (grid rs) = Inr cg \<Longrightarrow>
   cg = array (map array (map (map gc) rs))
   \<and> (\<forall>r \<in> set rs. \<forall>p \<in> set r. list_all (\<lambda>c. 0 \<le> c \<and> c \<le> 255) (rgba_items (gc p)))"
proof (induction rs arbitrary: cg)
  case Nil
  then show ?case by (simp add: array_def)
next
  case (Cons r rs)
  from Cons.prems obtain q qs where
    q': "rowColors gc (Some (array r)) = Inr q" and qs: "mapA (rowColors gc) (grid rs) = Inr qs"
    and cg: "cg = Has q # qs"
    by (auto split: sum.splits)
  from q' have q: "mapA (cellColor gc) (array r) = Inr q" by (simp add: rowColors_def)
  from mapA_cellColor_array [OF q] Cons.IH [OF qs] cg show ?case by (simp add: array_def)
qed

lemma validated_grid:
  assumes v: "verifyOptions options = Inr u"
    and g: "dataGrid options = grid rows"
    and c: "mapA (rowColors (getColor options)) (dataGrid options) = Inr cg"
  shows "cg = array (map array (map (map (getColor options)) rows))"
    and "\<forall>r \<in> set rows. length r = length (rows ! 0)"
    and "\<forall>r \<in> set rows. \<forall>p \<in> set r.
           list_all (\<lambda>c. 0 \<le> c \<and> c \<le> 255) (rgba_items (getColor options p))"
    and "gridDimensions cg
           = Inr \<lparr>x = length rows, y = (if rows = [] then 0 else length (rows ! 0))\<rparr>"
proof -
  from c g have c': "mapA (rowColors (getColor options)) (grid rows) = Inr cg" by simp
  from mapA_rowColors_grid [OF c'] show cg: "cg = array (map array (map (map (getColor options)) rows))"
    and "\<forall>r \<in> set rows. \<forall>p \<in> set r.
           list_all (\<lambda>c. 0 \<le> c \<and> c \<le> 255) (rgba_items (getColor options p))"
    by simp_all
  from v g have e: "every (rowLengthMatches (grid rows)) (grid rows) = Inr True"
    by (auto simp: verifyOptions_def split: if_splits sum.splits)
  show "\<forall>r \<in> set rows. length r = length (rows ! 0)"
  proof
    fix r assume r: "r \<in> set rows"
    from every_rowLengthMatches_grid [OF e r] obtain r0 where
      "elem (grid rows) 0 = Some (Some r0)" "length r = length r0" by blast
    moreover have "elem (grid rows) 0 = Some (Some (array (rows ! 0)))"
      using r by (cases rows) (simp_all add: elem_def)
    ultimately have "r0 = array (rows ! 0)" by simp
    with \<open>length r = length r0\<close> show "length r = length (rows ! 0)" by simp
  qed
  show "gridDimensions cg
           = Inr \<lparr>x = length rows, y = (if rows = [] then 0 else length (rows ! 0))\<rparr>"
    unfolding cg by (cases rows) (simp_all add: gridDimensions_def elem_array)
qed

text \<open>
  The layout in terms of the options, in exact arithmetic: byte
  \<open>((N - 1 - j) * M + i) * 4 + k\<close> of the data is component \<open>k\<close> of
  \<^verbatim>\<open>getColor(dataGrid[i][j])\<close>.
\<close>

lemma gridData_layout:
  assumes v: "verifyOptions options = Inr ()"
    and g: "dataGrid options = grid rows"
    and c: "mapA (rowColors (getColor options)) (dataGrid options) = Inr cg"
    and i: "i < length rows" and j: "j < length (rows ! i)" and k: "k < 4"
  shows "\<exists>layer data. createLayer exact (never_throws f) options = Some (Inr layer)
     \<and> gridData (colorGrid layer) = Inr data
     \<and> uint (data ! (((y (gridSize layer) - 1 - j) * x (gridSize layer) + i) * 4 + k))
         = rgba_items (getColor options (rows ! i ! j)) ! k"
proof -
  let ?cs = "map (map (getColor options)) rows"
  let ?N = "length (rows ! 0)" and ?M = "length rows"
  have ne: "rows \<noteq> []" using i by auto
  note vg = validated_grid [OF v g c]
  have d: "gridDimensions cg = Inr \<lparr>x = ?M, y = ?N\<rparr>" using vg(4) ne by simp
  from createLayer_valid [OF v c d, of f] obtain layer where
    l: "createLayer exact (never_throws f) options = Some (Inr layer)" and cg: "colorGrid layer = cg"
    and gs: "gridSize layer = \<lparr>x = ?M, y = ?N\<rparr>"
    by auto
  have rect: "\<forall>row \<in> set ?cs. length row = ?N" using vg(2) by simp
  have ne': "?cs \<noteq> []" using ne by simp
  have jN: "j < ?N" using j vg(2) i by simp
  from gridData_rect [OF rect ne'] obtain data where
    dd: "gridData (array (map array ?cs)) = Inr data"
    and b: "data ! (((?N - 1 - j) * ?M + i) * 4 + k) = word_of_int (rgba_items (?cs ! i ! j) ! k)"
    using i jN k by (simp only: length_map) blast
  have eqc: "?cs ! i ! j = getColor options (rows ! i ! j)" using i j by simp
  have "rows ! i \<in> set rows" "rows ! i ! j \<in> set (rows ! i)" using i j by simp_all
  with vg(3) have val: "list_all (\<lambda>c. 0 \<le> c \<and> c \<le> 255) (rgba_items (getColor options (rows ! i ! j)))"
    by blast
  have "rgba_items (getColor options (rows ! i ! j)) ! k \<in> set (rgba_items (getColor options (rows ! i ! j)))"
    using k by simp
  with val have "0 \<le> rgba_items (getColor options (rows ! i ! j)) ! k
      \<and> rgba_items (getColor options (rows ! i ! j)) ! k \<le> 255"
    by (simp only: list_all_iff)
  then have "uint (word_of_int (rgba_items (getColor options (rows ! i ! j)) ! k) :: 8 word)
      = rgba_items (getColor options (rows ! i ! j)) ! k"
    by (simp add: uint_byte)
  with b eqc have "uint (data ! (((?N - 1 - j) * ?M + i) * 4 + k))
         = rgba_items (getColor options (rows ! i ! j)) ! k"
    by simp
  with l dd cg gs vg(1) show ?thesis by simp
qed

section \<open>The setup hook\<close>

lemmas gl_helper_defs =
  createVertexShader_def createFragmentShader_def createProgram_def createFloat32Buffer_def

lemma onAdd_no_texture_call:
  "prepareTexture layer = ([], None) \<Longrightarrow> \<not> list_ex is_texture_call (fst (onAdd layer projection gl))"
  by (simp add: onAdd_def andThen_def gl_helper_defs)

lemma onAdd_no_error:
  "prepareTexture layer = (calls, None) \<Longrightarrow> \<not> createShader_null gl VERTEX_SHADER
    \<Longrightarrow> \<not> createShader_null gl FRAGMENT_SHADER \<Longrightarrow> \<not> createProgram_null gl
    \<Longrightarrow> \<not> createBuffer_null gl \<Longrightarrow> snd (onAdd layer ''mercator'' gl) = None"
  by (simp add: onAdd_def andThen_def gl_helper_defs)

lemma onAdd_error:
  "snd (onAdd layer projection gl) = Some e
    \<Longrightarrow> (\<exists>msg. e = Error msg) \<or> snd (prepareTexture layer) = Some e"
  by (auto simp: onAdd_def andThen_def gl_helper_defs split: if_splits option.splits)

lemma onAdd_size_error:
  assumes "x (gridSize layer) \<noteq> 0" "gridData (colorGrid layer) = Inr data"
    "x (gridSize layer) * y (gridSize layer) * 4 \<noteq> length data"
  shows "snd (onAdd layer ''mercator'' working_gl)
           = Some (ColorMatrixSizeError (x (gridSize layer) * y (gridSize layer) * 4) (length data))"
    and "CreateShader VERTEX_SHADER \<in> set (fst (onAdd layer ''mercator'' working_gl))"
    and "CreateProgram \<in> set (fst (onAdd layer ''mercator'' working_gl))"
    and "CreateBuffer \<in> set (fst (onAdd layer ''mercator'' working_gl))"
    and "\<not> list_ex is_texture_call (fst (onAdd layer ''mercator'' working_gl))"
  using assms
  by (simp_all add: onAdd_def andThen_def gl_helper_defs prepareTexture_def working_gl_def)

text \<open>
  The empty grid in exact arithmetic, with every other option in its documented
  range: \<^verbatim>\<open>createLayer\<close> returns a layer whose \<^verbatim>\<open>gridSize\<close> is \<open>(0, 0)\<close>; in its \<^verbatim>\<open>onAdd\<close>
  the texture part returns at once, so no run of \<^verbatim>\<open>onAdd\<close> creates, configures or
  uploads a texture, and with the Mercator projection and a GL context that gives no
  \<^verbatim>\<open>null\<close> the hook throws nothing.
\<close>

lemma createLayer_empty_grid_exact:
  assumes "dataGrid options = []"
    and "-90 \<le> lat (offset options)" "lat (offset options) \<le> 90"
    and "-180 \<le> lng (offset options)" "lng (offset options) \<le> 180"
    and "0 < lat (stepSize options)" "lat (stepSize options) \<le> 180"
    and "0 < lng (stepSize options)" "lng (stepSize options) \<le> 360"
    and "0 \<le> opacity options" "opacity options \<le> 1"
  shows "\<exists>layer. createLayer exact (never_throws f) options = Some (Inr layer)
    \<and> gridSize layer = \<lparr>x = 0, y = 0\<rparr>
    \<and> prepareTexture layer = ([], None)
    \<and> (\<forall>projection gl. \<not> list_ex is_texture_call (fst (onAdd layer projection gl)))
    \<and> (\<forall>gl. \<not> createShader_null gl VERTEX_SHADER \<and> \<not> createShader_null gl FRAGMENT_SHADER
           \<and> \<not> createProgram_null gl \<and> \<not> createBuffer_null gl
           \<longrightarrow> onAdd layer ''mercator'' gl
               = (fst (onAdd layer ''mercator'' gl), None))"
proof -
  have v: "verifyOptions options = Inr ()"
    using assms by (simp add: verifyOptions_def)
  have c: "mapA (rowColors (getColor options)) (dataGrid options) = Inr []"
    using assms(1) by simp
  have d: "gridDimensions [] = Inr \<lparr>x = 0, y = 0\<rparr>"
    by (simp add: gridDimensions_def)
  from createLayer_valid [OF v c d, of f] obtain layer where
    l: "createLayer exact (never_throws f) options = Some (Inr layer)"
    and g: "gridSize layer = \<lparr>x = 0, y = 0\<rparr>"
    by auto
  have p: "prepareTexture layer = ([], None)" using g by (simp add: prepareTexture_def)
  have "\<not> list_ex is_texture_call (fst (onAdd layer projection gl))" for projection gl
    using p by (rule onAdd_no_texture_call)
  moreover have "onAdd layer ''mercator'' gl = (fst (onAdd layer ''mercator'' gl), None)"
    if "\<not> createShader_null gl VERTEX_SHADER \<and> \<not> createShader_null gl FRAGMENT_SHADER
           \<and> \<not> createProgram_null gl \<and> \<not> createBuffer_null gl" for gl
    using onAdd_no_error [OF p, of gl] that by (simp add: prod_eq_iff)
  ultimately show ?thesis using l g p by blast
qed

text \<open>
  For a validated, non-empty grid with no hole, in exact arithmetic, the texture data
  has \<^verbatim>\<open>gridSize.x * gridSize.y * 4\<close> bytes, and no run of \<^verbatim>\<open>onAdd\<close> throws the error
  of the size check.
\<close>

lemma gridData_length_no_hole:
  assumes v: "verifyOptions options = Inr ()"
    and g: "dataGrid options = grid rows"
    and c: "mapA (rowColors (getColor options)) (dataGrid options) = Inr cg"
    and ne: "rows \<noteq> []"
  shows "\<exists>layer data. createLayer exact (never_throws f) options = Some (Inr layer)
    \<and> gridSize layer = \<lparr>x = length rows, y = length (rows ! 0)\<rparr>
    \<and> gridData (colorGrid layer) = Inr data
    \<and> length data = x (gridSize layer) * y (gridSize layer) * 4
    \<and> (\<forall>projection gl expected actual.
          snd (onAdd layer projection gl) \<noteq> Some (ColorMatrixSizeError expected actual))"
proof -
  let ?cs = "map (map (getColor options)) rows"
  note vg = validated_grid [OF v g c]
  have d: "gridDimensions cg = Inr \<lparr>x = length rows, y = length (rows ! 0)\<rparr>"
    using vg(4) ne by simp
  from createLayer_valid [OF v c d, of f] obtain layer where
    l: "createLayer exact (never_throws f) options = Some (Inr layer)" and cg: "colorGrid layer = cg"
    and gs: "gridSize layer = \<lparr>x = length rows, y = length (rows ! 0)\<rparr>"
    by auto
  have rect: "\<forall>row \<in> set ?cs. length row = length (rows ! 0)" using vg(2) by simp
  have ne': "?cs \<noteq> []" using ne by simp
  from gridData_rect [OF rect ne'] obtain data where
    dd: "gridData (array (map array ?cs)) = Inr data"
    and len: "length data = length rows * length (rows ! 0) * 4"
    by (simp only: length_map) blast
  have p: "snd (prepareTexture layer) = None"
    using dd len cg gs vg(1) by (simp add: prepareTexture_def)
  have "snd (onAdd layer projection gl) \<noteq> Some (ColorMatrixSizeError expected actual)"
    for projection gl expected actual
    using onAdd_error [of layer projection gl "ColorMatrixSizeError expected actual"] p by auto
  with l dd len cg gs vg(1) show ?thesis by auto
qed

text \<open>
  C7. The grid \<^verbatim>\<open>[[1, , 2]]\<close>, one row of length three whose middle cell is a hole,
  with the other options of the README's example: validation passes (the row's
  length is the first row's), \<^verbatim>\<open>createLayer\<close> returns a layer with \<^verbatim>\<open>gridSize\<close>
  \<open>(1, 3)\<close>, the \<^verbatim>\<open>map\<close>s of \<^verbatim>\<open>onAdd\<close> pass over the hole, the data has 8 bytes where
  \<open>1 * 3 * 4 = 12\<close> are expected, and \<^verbatim>\<open>onAdd\<close> throws the error of the size check.
\<close>

theorem onAdd_size_check_reached:
  "verifyOptions ((readme_options binary64)\<lparr>dataGrid := [Has (Some [Has 1, Hole, Has 2])]\<rparr>) = Inr ()
   \<and> (\<exists>layer data.
         createLayer binary64 (fromLngLat_mapbox binary64)
           ((readme_options binary64)\<lparr>dataGrid := [Has (Some [Has 1, Hole, Has 2])]\<rparr>)
           = Some (Inr layer)
       \<and> gridSize layer = \<lparr>x = 1, y = 3\<rparr>
       \<and> gridData (colorGrid layer) = Inr data
       \<and> length data = 8
       \<and> snd (onAdd layer ''mercator'' working_gl) = Some (ColorMatrixSizeError 12 8))"
proof -
  let ?options = "(readme_options binary64)\<lparr>dataGrid := [Has (Some [Has 1, Hole, Has 2])]\<rparr>"
  let ?cg = "[Has [Has (255, 0, 0, 255), Hole, Has (0, 255, 0, 255)]] :: RGBA slot list slot list"
  have g: "offset ?options = offset (readme_options binary64)"
    "stepSize ?options = stepSize (readme_options binary64)"
    "opacity ?options = opacity (readme_options binary64)"
    "dataGrid ?options = [Has (Some [Has 1, Hole, Has 2])]"
    by simp_all
  have v: "verifyOptions ?options = Inr ()"
    unfolding verifyOptions_def
    by (simp only: g readme_fields) (simp add: rowLengthMatches_def rowDefined_def elem_def)
  have c: "mapA (rowColors (getColor ?options)) (dataGrid ?options) = Inr ?cg"
    by (simp add: readme_options_def rowColors_def cellColor_def)
  have d: "gridDimensions ?cg = Inr \<lparr>x = 1, y = 3\<rparr>"
    by (simp add: gridDimensions_def elem_def)
  have n: "binary64 (lat (offset ?options)
      + binary64 (real (y \<lparr>x = 1, y = 3::nat\<rparr>) * lat (stepSize ?options)))
      = 4227754150194053 / 2 ^ 46"
    by (simp only: g readme_fields vec2.simps binary64_three_steps binary64_north)
  have loop: "latStepsLoop binary64 (fromLngLat_mapbox binary64) (4227754150194053 / 2 ^ 46)
      (lat (offset ?options)) (lat (stepSize ?options)) []
      = Some (Inr [binary64 (y (webMercator \<lparr>lng = 0, lat = 4227754150194053 / 2 ^ 46\<rparr>)),
           binary64 (y (webMercator \<lparr>lng = 0, lat = 8441434551552573 / 2 ^ 47\<rparr>)),
           binary64 (y (webMercator \<lparr>lng = 0, lat = 526710050169815 / 2 ^ 43\<rparr>))])"
    by (simp only: g readme_fields latStepsLoop_readme append_Nil)
  from createLayer_mapbox [OF v c d n _ _ loop] obtain layer where
    l: "createLayer binary64 (fromLngLat_mapbox binary64) ?options = Some (Inr layer)"
    and cg: "colorGrid layer = ?cg" and gs: "gridSize layer = \<lparr>x = 1, y = 3\<rparr>"
    by auto
  have data: "gridData (colorGrid layer) = Inr [0, 255, 0, 255, 255, 0, 0, 255]"
    unfolding cg
    by (simp add: gridData_def flat_def transposed_def elem_def present_def spreadItem_def
          Uint8Array_def upt_rec)
  have "snd (onAdd layer ''mercator'' working_gl) = Some (ColorMatrixSizeError 12 8)"
    using onAdd_size_error(1) [OF _ data] gs by simp
  with v l gs data show ?thesis by simp
qed

text \<open>
  C9. The grid \<^verbatim>\<open>[[1], , [2]]\<close>, whose row 1 is a hole (\<^verbatim>\<open>dataGrid[1]\<close> is
  \<^verbatim>\<open>undefined\<close>), with the other options of the README's example: both tests of
  \<^verbatim>\<open>verifyOptions\<close> pass over the hole and validation passes, \<^verbatim>\<open>createLayer\<close> returns a
  layer with \<^verbatim>\<open>gridSize\<close> \<open>(3, 1)\<close>, and its \<^verbatim>\<open>onAdd\<close> creates the shaders, the program and
  the vertex buffer before it throws the error of the size check (8 bytes where 12
  are expected).
\<close>

theorem createLayer_accepts_missing_row:
  "elem (dataGrid ((readme_options binary64)
           \<lparr>dataGrid := [Has (Some [Has 1]), Hole, Has (Some [Has 2])]\<rparr>)) 1 = None
   \<and> verifyOptions ((readme_options binary64)
           \<lparr>dataGrid := [Has (Some [Has 1]), Hole, Has (Some [Has 2])]\<rparr>) = Inr ()
   \<and> (\<exists>layer.
         createLayer binary64 (fromLngLat_mapbox binary64)
           ((readme_options binary64)\<lparr>dataGrid := [Has (Some [Has 1]), Hole, Has (Some [Has 2])]\<rparr>)
           = Some (Inr layer)
       \<and> gridSize layer = \<lparr>x = 3, y = 1\<rparr>
       \<and> CreateShader VERTEX_SHADER \<in> set (fst (onAdd layer ''mercator'' working_gl))
       \<and> CreateProgram \<in> set (fst (onAdd layer ''mercator'' working_gl))
       \<and> CreateBuffer \<in> set (fst (onAdd layer ''mercator'' working_gl))
       \<and> snd (onAdd layer ''mercator'' working_gl) = Some (ColorMatrixSizeError 12 8))"
proof -
  let ?options = "(readme_options binary64)
           \<lparr>dataGrid := [Has (Some [Has 1]), Hole, Has (Some [Has 2])]\<rparr>"
  let ?cg = "[Has [Has (255, 0, 0, 255)], Hole, Has [Has (0, 255, 0, 255)]] :: RGBA slot list slot list"
  have g: "offset ?options = offset (readme_options binary64)"
    "stepSize ?options = stepSize (readme_options binary64)"
    "opacity ?options = opacity (readme_options binary64)"
    "dataGrid ?options = [Has (Some [Has 1]), Hole, Has (Some [Has 2])]"
    by simp_all
  have h: "elem (dataGrid ?options) 1 = None"
    by (simp add: elem_def)
  have v: "verifyOptions ?options = Inr ()"
    unfolding verifyOptions_def
    by (simp only: g readme_fields) (simp add: rowLengthMatches_def rowDefined_def elem_def)
  have c: "mapA (rowColors (getColor ?options)) (dataGrid ?options) = Inr ?cg"
    by (simp add: readme_options_def rowColors_def cellColor_def)
  have d: "gridDimensions ?cg = Inr \<lparr>x = 3, y = 1\<rparr>"
    by (simp add: gridDimensions_def elem_def)
  have n: "binary64 (lat (offset ?options)
      + binary64 (real (y \<lparr>x = 3, y = 1::nat\<rparr>) * lat (stepSize ?options)))
      = 8427360802717041 / 2 ^ 47"
    by (simp only: g readme_fields vec2.simps binary64_one_step binary64_north_one)
  have loop: "latStepsLoop binary64 (fromLngLat_mapbox binary64) (8427360802717041 / 2 ^ 47)
      (lat (offset ?options)) (lat (stepSize ?options)) []
      = Some (Inr [binary64 (y (webMercator \<lparr>lng = 0, lat = 8427360802717041 / 2 ^ 47\<rparr>)),
           binary64 (y (webMercator \<lparr>lng = 0, lat = 2103321763470377 / 2 ^ 45\<rparr>))])"
    by (simp only: g readme_fields latStepsLoop_one_row append_Nil)
  from createLayer_mapbox [OF v c d n _ _ loop] obtain layer where
    l: "createLayer binary64 (fromLngLat_mapbox binary64) ?options = Some (Inr layer)"
    and cg: "colorGrid layer = ?cg" and gs: "gridSize layer = \<lparr>x = 3, y = 1\<rparr>"
    by auto
  have data: "gridData (colorGrid layer) = Inr [255, 0, 0, 255, 0, 255, 0, 255]"
    unfolding cg
    by (simp add: gridData_def flat_def transposed_def elem_def present_def spreadItem_def
          Uint8Array_def upt_rec)
  have x: "x (gridSize layer) \<noteq> 0"
    and m: "x (gridSize layer) * y (gridSize layer) * 4 \<noteq> length [255, 0, 0, 255, 0, 255, 0, 255 :: 8 word]"
    using gs by simp_all
  have "snd (onAdd layer ''mercator'' working_gl) = Some (ColorMatrixSizeError 12 8)"
    using onAdd_size_error(1) [OF x data m] gs by simp
  with h v l gs onAdd_size_error(2-4) [OF x data m] show ?thesis by simp
qed

section \<open>The texture data of part\_000\<close>

lemma mapE_all_Inr:
  "(\<And>k. k \<in> set ks \<Longrightarrow> f k = Inr (g k)) \<Longrightarrow> mapE f ks = Inr (map g ks)"
  by (induction ks) auto

text \<open>
  On a square grid part\_000 builds the data layer.ts builds for the grid with no
  hole; on a rectangular grid that is not square (and has cells) it throws.
\<close>

lemma gridData_part_000_square:
  assumes rect: "\<forall>row \<in> set cg. length row = length cg" and ne: "cg \<noteq> []"
  shows "gridData_part_000 cg = gridData (array (map array cg))"
proof -
  let ?n = "length cg"
  have first: "nth_opt cg 0 = Some (cg ! 0)" "length (cg ! 0) = ?n"
    using rect ne by (simp_all add: nth_opt_def)
  have cell: "cell_part_000 cg i j = Inr (cg ! j ! i)" if "i < ?n" "j < ?n" for i j
    using that rect by (simp add: cell_part_000_def nth_opt_def)
  have inner: "mapE (\<lambda>j. cell_part_000 cg i j) [0..<?n] = Inr (map (\<lambda>row. row ! i) cg)"
    if "i < ?n" for i
  proof -
    have "mapE (\<lambda>j. cell_part_000 cg i j) [0..<?n] = Inr (map (\<lambda>j. cg ! j ! i) [0..<?n])"
      using that cell by (intro mapE_all_Inr) simp
    moreover have "map (\<lambda>j. cg ! j ! i) [0..<?n] = map (\<lambda>row. row ! i) cg"
      by (rule nth_equalityI) simp_all
    ultimately show ?thesis by simp
  qed
  have "mapE (\<lambda>i. mapE (\<lambda>j. cell_part_000 cg i j) [0..<?n]) [0..<?n]
      = Inr (map (\<lambda>i. map (\<lambda>row. row ! i) cg) [0..<?n])"
    using inner by (intro mapE_all_Inr) simp
  then have "gridData_part_000 cg
      = Inr (Uint8Array (concat (map rgba_items
            (concat (rev (map (\<lambda>i. map (\<lambda>row. row ! i) cg) [0..<?n]))))))"
    by (simp add: gridData_part_000_def transposed_part_000_def first)
  moreover have "gridData (array (map array cg))
      = Inr (Uint8Array (concat (map rgba_items
            (concat (rev (map (\<lambda>i. map (\<lambda>row. row ! i) cg) [0..<?n]))))))"
    using flat_rect [OF rect ne] by (simp add: gridData_def)
  ultimately show ?thesis by simp
qed

lemma gridData_part_000_not_square:
  assumes rect: "\<forall>row \<in> set cg. length row = n" and n: "0 < n" and ne: "cg \<noteq> []"
    and ns: "length cg \<noteq> n"
  shows "\<exists>msg. gridData_part_000 cg = Inl (Error msg)"
proof -
  let ?m = "length cg"
  have first: "nth_opt cg 0 = Some (cg ! 0)" "length (cg ! 0) = n"
    using rect ne by (simp_all add: nth_opt_def)
  have m: "0 < ?m" using ne by simp
  obtain i j where ij: "i < ?m" "j < n" and bad: "\<exists>msg. cell_part_000 cg i j = Inl (Error msg)"
  proof (cases "?m < n")
    case True
    have "cell_part_000 cg 0 ?m = Inl (Error ''Row in color matrix was null.'')"
      by (simp add: cell_part_000_def nth_opt_def)
    with True m that show ?thesis by blast
  next
    case False
    with ns have lt: "n < ?m" by simp
    have "cell_part_000 cg n 0 = Inl (Error ''Cell in color matrix was null.'')"
      using rect m first by (simp add: cell_part_000_def nth_opt_def)
    with lt n that show ?thesis by blast
  qed
  have err: "\<exists>msg. e = Error msg" if "cell_part_000 cg i' j' = Inl e" for i' j' e
    using that by (auto simp: cell_part_000_def split: option.splits)
  have inner: "\<exists>msg. e = Error msg" if "mapE (\<lambda>j. cell_part_000 cg i' j) js = Inl e" for i' js e
    using that by (induction js arbitrary: e) (auto split: sum.splits dest: err)
  have outer: "\<exists>msg. e = Error msg"
    if "mapE (\<lambda>i. mapE (\<lambda>j. cell_part_000 cg i j) [0..<n]) is = Inl e" for "is" e
    using that by (induction "is" arbitrary: e) (auto split: sum.splits dest: inner)
  show ?thesis
  proof (cases "mapE (\<lambda>i. mapE (\<lambda>j. cell_part_000 cg i j) [0..<n]) [0..<?m]")
    case (Inl e)
    with outer [OF Inl] show ?thesis by (auto simp: gridData_part_000_def transposed_part_000_def first)
  next
    case (Inr t)
    from mapE_Inr_all [OF Inr, of i] ij obtain q where
      "mapE (\<lambda>j. cell_part_000 cg i j) [0..<n] = Inr q" by auto
    from mapE_Inr_all [OF this, of j] ij obtain c where "cell_part_000 cg i j = Inr c" by auto
    with bad show ?thesis by simp
  qed
qed

text \<open>
  C2. In part\_000 the loops run \<^verbatim>\<open>i\<close> to \<^verbatim>\<open>gridSize.x\<close> and \<^verbatim>\<open>j\<close> to \<^verbatim>\<open>gridSize.y\<close> but
  read \<^verbatim>\<open>colorGrid[j][i]\<close>: for the grid of one row of two colours the read of
  \<^verbatim>\<open>colorGrid[1]\<close> throws, and there is no texture data.
\<close>

theorem gridData_part_000_one_by_two:
  "gridData_part_000 [[(255, 0, 0, 255), (0, 255, 0, 255)]]
     = Inl (Error ''Row in color matrix was null.'')"
  by (simp add: gridData_part_000_def transposed_part_000_def cell_part_000_def nth_opt_def upt_rec)

section \<open>Round trip: from a cell's centre back to its colour\<close>

lemma latIndexLoop_finds:
  "i \<le> m \<Longrightarrow> Suc m < n \<Longrightarrow> (\<And>k. i \<le> k \<Longrightarrow> k \<le> m \<Longrightarrow> fy \<ge> latStepAt steps k)
    \<Longrightarrow> \<not> fy \<ge> latStepAt steps (Suc m) \<Longrightarrow> latIndexLoop fy steps n i acc = m"
proof (induction fy steps n i acc rule: latIndexLoop.induct)
  case (1 fy steps numLatSteps i latIndexInt)
  have lt: "i < numLatSteps" and ge: "fy \<ge> latStepAt steps i"
    using "1.prems" by auto
  show ?case
  proof (cases "i = m")
    case True
    have "latIndexLoop fy steps numLatSteps (Suc m) m = m"
      using "1.prems"(2,4) by (subst latIndexLoop.simps) simp
    with True lt ge show ?thesis by (subst latIndexLoop.simps) simp
  next
    case False
    with "1.prems"(1) have "Suc i \<le> m" by simp
    then have "latIndexLoop fy steps numLatSteps (Suc i) i = m"
      using "1.prems" by (intro "1.IH" [OF lt ge]) auto
    with lt ge show ?thesis by (subst latIndexLoop.simps) simp
  qed
qed

lemma texelIndex_exact: "i < n \<Longrightarrow> texelIndex n (real_of_int (int i) / real n) = i"
  by (simp add: texelIndex_def)

lemma texelIndex_exact': "i < n \<Longrightarrow> texelIndex n (real i / real n) = i"
  by (simp add: texelIndex_def)

lemma floor_half: "\<lfloor>real i + 1 / 2\<rfloor> = int i"
  by linarith

lemma lngIndex_center:
  assumes "a \<noteq> 0" "0 < s"
  shows "\<lfloor>((a * (l + (real i + 1 / 2) * s) + b) - (a * l + b)) / ((a * (l + s) + b) - (a * l + b))\<rfloor> = int i"
proof -
  have "((a * (l + (real i + 1 / 2) * s) + b) - (a * l + b)) = (real i + 1 / 2) * (a * s)"
    by (simp add: algebra_simps)
  moreover have "((a * (l + s) + b) - (a * l + b)) = a * s" by (simp add: algebra_simps)
  moreover have "a * s \<noteq> 0" using assms by simp
  ultimately have "((a * (l + (real i + 1 / 2) * s) + b) - (a * l + b)) / ((a * (l + s) + b) - (a * l + b))
      = real i + 1 / 2" by simp
  then show ?thesis by (simp only: floor_half)
qed

lemma map_exact: "map exact vs = vs"
  by (induction vs) (simp_all add: exact_def)

text \<open>
  In exact arithmetic, with uniforms uploaded as they are, for a validated grid with
  no hole, a projection that accepts every point and is Mercator-style over the grid's
  latitudes, and a cell \<open>(i, j)\<close>: the layer is built, and the fragment shader's index
  computation at the projected centre of the cell gives longitude index \<open>i\<close> and
  latitude index \<open>N - 1 - j\<close> (\<open>N\<close> the length of the rows); the texel these select in
  the uploaded texture is the colour \<^verbatim>\<open>getColor(dataGrid[i][j])\<close>.
\<close>

lemma center_lookup_roundtrip_exact:
  assumes v: "verifyOptions options = Inr ()"
    and g: "dataGrid options = grid rows"
    and c: "mapA (rowColors (getColor options)) (dataGrid options) = Inr cg"
    and lin: "x_linear_in_longitude f"
    and dec: "y_decreasing_in_latitude (lat (offset options))
                (lat (offset options) + real (length (rows ! 0)) * lat (stepSize options)) f"
    and i: "i < length rows" and j: "j < length (rows ! i)"
  shows "\<exists>layer data u. createLayer exact (never_throws f) options = Some (Inr layer)
     \<and> gridData (colorGrid layer) = Inr data
     \<and> render exact exact (never_throws f) layer viewport drawingBuffer = Inr u
     \<and> lngIndex u (f (cellCenter options i j)) = int i
     \<and> latIndex (length (latStepsMercator layer)) u (f (cellCenter options i j))
          = length (rows ! i) - 1 - j
     \<and> map uint (texture2D (x (gridSize layer)) (y (gridSize layer)) data
          (texCoords (length (latStepsMercator layer)) (x (gridSize layer)) (y (gridSize layer))
             u (f (cellCenter options i j))))
         = rgba_items (getColor options (rows ! i ! j))"
proof -
  let ?cs = "map (map (getColor options)) rows"
  let ?N = "length (rows ! 0)" and ?M = "length rows"
  let ?s = "lat (stepSize options)" and ?o = "lat (offset options)"
  let ?steps = "map (\<lambda>k. y (f \<lparr>lng = 0, lat = ?o + real (?N - k) * ?s\<rparr>)) [0..<Suc ?N]"
  have ne: "rows \<noteq> []" using i by auto
  note vg = validated_grid [OF v g c]
  have d: "gridDimensions cg = Inr \<lparr>x = ?M, y = ?N\<rparr>" using vg(4) ne by simp
  from createLayer_valid [OF v c d, of f] obtain layer where
    l: "createLayer exact (never_throws f) options = Some (Inr layer)" and cg: "colorGrid layer = cg"
    and gs: "gridSize layer = \<lparr>x = ?M, y = ?N\<rparr>"
    and st: "latStepsMercator layer = ?steps"
    and ls: "lngStepMercator layer =
         x (f \<lparr>lng = lng (offset options) + lng (stepSize options), lat = ?o\<rparr>)
           - x (f \<lparr>lng = lng (offset options), lat = ?o\<rparr>)"
    and tl: "topLeft (dataBoundsMercator layer) =
         f \<lparr>lng = lng (offset options), lat = ?o + real ?N * ?s\<rparr>"
    by auto
  have "\<exists>u. render exact exact (never_throws f) layer viewport drawingBuffer = Inr u
      \<and> x (u_dataBoundsMercatorMin u) = x (topLeft (dataBoundsMercator layer))
      \<and> u_lngMercatorStep u = lngStepMercator layer
      \<and> u_latMercatorSteps u = latStepsMercator layer"
    by (simp add: render_def never_throws_def map_exact) (simp add: exact_def)
  then obtain u where r: "render exact exact (never_throws f) layer viewport drawingBuffer = Inr u"
    and u1: "x (u_dataBoundsMercatorMin u) = x (topLeft (dataBoundsMercator layer))"
    and u2: "u_lngMercatorStep u = lngStepMercator layer"
    and u3: "u_latMercatorSteps u = latStepsMercator layer"
    by blast
  let ?fcm = "f (cellCenter options i j)"
  have rect: "\<forall>row \<in> set ?cs. length row = ?N" using vg(2) by simp
  have ne': "?cs \<noteq> []" using ne by simp
  have Ni: "length (rows ! i) = ?N" using vg(2) i by simp
  have jN: "j < ?N" using j Ni by simp
  have pos: "0 < ?s" "0 < lng (stepSize options)"
    using verifyOptions_stepSize [OF v] by simp_all
  from gridData_rect [OF rect ne'] obtain data where
    dd: "gridData (array (map array ?cs)) = Inr data"
    and tx: "texel ?M data i (?N - 1 - j) = map word_of_int (rgba_items (?cs ! i ! j))"
    using i jN by (simp only: length_map) blast
  \<comment> \<open>longitude\<close>
  from lin obtain a b where a: "a \<noteq> 0" and ab: "\<And>p. x (f p) = a * lng p + b"
    unfolding x_linear_in_longitude_def by blast
  have lngI: "lngIndex u ?fcm = int i"
    unfolding lngIndex_def u1 u2 tl ls ab
    using lngIndex_center [OF a pos(2), of "lng (offset options)" i b]
    by (simp add: cellCenter_def)
  \<comment> \<open>latitude\<close>
  have len: "length ?steps = Suc ?N" by simp
  have at: "latStepAt ?steps k = y (f \<lparr>lng = 0, lat = ?o + real (?N - k) * ?s\<rparr>)"
    if "k \<le> ?N" for k
    using that by (simp add: latStepAt_def nth_map del: upt_Suc)
  have clat: "lat (cellCenter options i j) = ?o + (real j + 1 / 2) * ?s"
    by (simp add: cellCenter_def)
  have above: "latStepAt ?steps k \<le> y ?fcm" if "k \<le> ?N - 1 - j" for k
  proof -
    define L where "L = ?o + real (?N - k) * ?s"
    have kN: "k \<le> ?N" using that by simp
    have "real j + 1 \<le> real (?N - k)" using that jN by linarith
    then have "(real j + 1) * ?s \<le> real (?N - k) * ?s" using pos(1) by simp
    moreover have "(real j + 1 / 2) * ?s < (real j + 1) * ?s" using pos(1) by simp
    ultimately have lt: "lat (cellCenter options i j) < L"
      unfolding clat L_def by linarith
    have "real (?N - k) * ?s \<le> real ?N * ?s" using pos(1) by simp
    then have le: "L \<le> ?o + real ?N * ?s" unfolding L_def by simp
    have ge: "?o \<le> lat (cellCenter options i j)" unfolding clat using pos(1) by simp
    have "y (f \<lparr>lng = 0, lat = L\<rparr>) < y ?fcm"
      using ge lt le by (intro y_decreasingD [OF dec]) simp_all
    then show ?thesis unfolding at [OF kN] L_def by simp
  qed
  have below: "\<not> latStepAt ?steps (Suc (?N - 1 - j)) \<le> y ?fcm"
  proof -
    define L where "L = ?o + real j * ?s"
    have kN: "Suc (?N - 1 - j) \<le> ?N" using jN by simp
    have eq: "?N - Suc (?N - 1 - j) = j" using jN by simp
    have lt: "L < lat (cellCenter options i j)"
      unfolding clat L_def using pos(1) by (simp add: algebra_simps)
    have "(real j + 1 / 2) * ?s \<le> real ?N * ?s" using jN pos(1) by simp
    then have le: "lat (cellCenter options i j) \<le> ?o + real ?N * ?s" unfolding clat by simp
    have ge: "?o \<le> L" unfolding L_def using pos(1) by simp
    have "y ?fcm < y (f \<lparr>lng = 0, lat = L\<rparr>)"
      using ge lt le by (intro y_decreasingD [OF dec]) simp_all
    then show ?thesis unfolding at [OF kN] eq L_def by simp
  qed
  have "latIndexLoop (y ?fcm) ?steps (Suc ?N) 0 0 = ?N - 1 - j"
    using jN above below by (intro latIndexLoop_finds) auto
  then have latI: "latIndex (length (latStepsMercator layer)) u ?fcm = ?N - 1 - j"
    unfolding latIndex_def u3 st len .
  \<comment> \<open>texture\<close>
  have tc: "texCoords (length (latStepsMercator layer)) ?M ?N u ?fcm
      = \<lparr>x = real_of_int (int i) / real ?M, y = real (?N - 1 - j) / real ?N\<rparr>"
    unfolding texCoords_def lngI latI ..
  have tex: "texture2D ?M ?N data (texCoords (length (latStepsMercator layer)) ?M ?N u ?fcm)
      = texel ?M data i (?N - 1 - j)"
  proof -
    have t1: "texelIndex ?M (real_of_int (int i) / real ?M) = i"
      using i by (rule texelIndex_exact)
    have "?N - 1 - j < ?N" using jN by simp
    then have t2: "texelIndex ?N (real (?N - 1 - j) / real ?N) = ?N - 1 - j"
      by (rule texelIndex_exact')
    show ?thesis unfolding tc texture2D_def by (simp only: vec2.simps t1 t2)
  qed
  have eqc: "?cs ! i ! j = getColor options (rows ! i ! j)" using i j by simp
  have "rows ! i \<in> set rows" "rows ! i ! j \<in> set (rows ! i)" using i j by simp_all
  with vg(3) have val: "list_all (\<lambda>c. 0 \<le> c \<and> c \<le> 255) (rgba_items (getColor options (rows ! i ! j)))"
    by blast
  have "map uint (map word_of_int (rgba_items (getColor options (rows ! i ! j))) :: 8 word list)
      = rgba_items (getColor options (rows ! i ! j))"
    by (rule map_uint_bytes [OF val])
  then have col: "map uint (texture2D ?M ?N data (texCoords (length (latStepsMercator layer)) ?M ?N u ?fcm))
      = rgba_items (getColor options (rows ! i ! j))"
    by (simp only: tex tx eqc)
  have dd': "gridData (colorGrid layer) = Inr data" using dd cg vg(1) by simp
  from l dd' r lngI latI Ni col gs show ?thesis by simp
qed

lemma binary64_millionth: "binary64 (1 / 10 ^ 6) = 4722366482869645 / 2 ^ 72"
  unfolding binary64_def
  by (subst round_to_eval [where k = "-20"]) (simp_all add: rne_def Let_def powr_minus)

lemma binary64_east:
  "binary64 (5967269506265907 / 2 ^ 49 + 4722366482869645 / 2 ^ 72) = 1491817517303965 / 2 ^ 47"
  unfolding binary64_def
  by (subst round_to_eval [where k = 3]) (simp_all add: rne_def Let_def powr_minus)

lemma binary64_east_180:
  "binary64 (180 + 1491817517303965 / 2 ^ 47) = 6706141355315751 / 2 ^ 45"
  unfolding binary64_def
  by (subst round_to_eval [where k = 7]) (simp_all add: rne_def Let_def powr_minus)

lemma binary64_east_x:
  "binary64 (6706141355315751 / 2 ^ 45 / 360) = 1192202907611689 / 2 ^ 51"
  unfolding binary64_def
  by (subst round_to_eval [where k = "-1"]) (simp_all add: rne_def Let_def powr_minus)

lemma binary64_west_180:
  "binary64 (180 + 5967269506265907 / 2 ^ 49) = 6706141320131379 / 2 ^ 45"
  unfolding binary64_def
  by (subst round_to_eval [where k = 7]) (simp_all add: rne_def Let_def powr_minus)

lemma binary64_west_x:
  "binary64 (6706141320131379 / 2 ^ 45 / 360) = 2384405802713379 / 2 ^ 52"
  unfolding binary64_def
  by (subst round_to_eval [where k = "-1"]) (simp_all add: rne_def Let_def powr_minus)

lemma binary64_width:
  "binary64 (1192202907611689 / 2 ^ 51 - 2384405802713379 / 2 ^ 52) = 12509999 / 2 ^ 52"
  unfolding binary64_def
  by (subst round_to_eval [where k = "-29"]) (simp_all add: rne_def Let_def powr_minus)

lemma float32_west_x: "float32 (2384405802713379 / 2 ^ 52) = 2220651 / 2 ^ 22"
  unfolding float32_def
  by (subst round_to_eval [where k = "-1"]) (simp_all add: rne_def Let_def powr_minus)

lemma float32_width: "float32 (12509999 / 2 ^ 52) = 12509999 / 2 ^ 52"
  unfolding float32_def
  by (subst round_to_eval [where k = "-29"]) (simp_all add: rne_def Let_def powr_minus)

lemma render_mapbox:
  assumes "-90 \<le> lat (sw viewport)" "lat (sw viewport) \<le> 90"
    "-90 \<le> lat (ne viewport)" "lat (ne viewport) \<le> 90"
  shows "\<exists>u. render rnd upload (fromLngLat_mapbox rnd) layer viewport drawingBuffer = Inr u
    \<and> u_lngMercatorStep u = upload (lngStepMercator layer)
    \<and> x (u_dataBoundsMercatorMin u) = upload (x (topLeft (dataBoundsMercator layer)))
    \<and> u_latMercatorSteps u = map upload (latStepsMercator layer)"
  using assms by (simp add: render_def fromLngLat_mapbox_def)

lemma texelIndex_less: "0 < n \<Longrightarrow> texelIndex n s < n"
  by (simp add: texelIndex_def)

text \<open>
  C1. The README's example with \<^verbatim>\<open>stepSize.lng\<close> 1e-6, in doubles, its uniforms
  uploaded as 32-bit floats: \<^verbatim>\<open>u_dataBoundsMercatorMin.x\<close> is the float nearest to
  0.5294444444444444, which is 0.5294444561004639, more than four column widths
  (2.78e-9 each) east of the grid's west edge. For the fragment at the projection of
  the exact centre of cell \<open>(1, 2)\<close> the shader's longitude index is \<open>-3\<close>, not \<open>1\<close>; the
  texture coordinate \<open>-1\<close> is clamped to column 0 of the texture, none of whose
  texels is the colour of \<^verbatim>\<open>dataGrid[1][2]\<close>, which is \<^verbatim>\<open>getColor(3)\<close>.
\<close>

theorem center_lookup_float32_uniforms:
  "\<exists>layer u data.
      createLayer binary64 (fromLngLat_mapbox binary64)
        ((readme_options binary64)\<lparr>stepSize := \<lparr>lng = binary64 (1 / 10 ^ 6), lat = binary64 (1 / 10)\<rparr>\<rparr>)
        = Some (Inr layer)
    \<and> gridSize layer = \<lparr>x = 3, y = 3\<rparr>
    \<and> render binary64 float32 (fromLngLat_mapbox binary64) layer
          \<lparr>sw = \<lparr>lng = 10, lat = 59\<rparr>, ne = \<lparr>lng = 11, lat = 61\<rparr>\<rparr> \<lparr>x = 800, y = 600\<rparr> = Inr u
    \<and> gridData (colorGrid layer) = Inr data
    \<and> lngIndex u (webMercator (cellCenter
          ((readme_options binary64)\<lparr>stepSize := \<lparr>lng = binary64 (1 / 10 ^ 6), lat = binary64 (1 / 10)\<rparr>\<rparr>)
          1 2)) = - 3
    \<and> texture2D 3 3 data (texCoords (length (latStepsMercator layer)) 3 3 u
          (webMercator (cellCenter
             ((readme_options binary64)\<lparr>stepSize := \<lparr>lng = binary64 (1 / 10 ^ 6), lat = binary64 (1 / 10)\<rparr>\<rparr>)
             1 2)))
        \<noteq> Uint8Array (rgba_items (getColor (readme_options binary64) 3))"
proof -
  let ?options = "(readme_options binary64)\<lparr>stepSize := \<lparr>lng = binary64 (1 / 10 ^ 6), lat = binary64 (1 / 10)\<rparr>\<rparr>"
  let ?cs = "[[(255, 0, 0, 255), (255, 0, 0, 255), (0, 255, 0, 255)],
        [(255, 0, 0, 255), (0, 255, 0, 255), (0, 0, 255, 255)],
        [(0, 255, 0, 255), (0, 0, 255, 255), (0, 0, 255, 255)]] :: RGBA list list"
  let ?viewport = "\<lparr>sw = \<lparr>lng = 10, lat = 59\<rparr>, ne = \<lparr>lng = 11, lat = 61\<rparr>\<rparr>"
  have st: "stepSize ?options = \<lparr>lng = binary64 (1 / 10 ^ 6), lat = binary64 (1 / 10)\<rparr>"
    by simp
  have f: "lng (stepSize ?options) = 4722366482869645 / 2 ^ 72"
    "lat (stepSize ?options) = 3602879701896397 / 2 ^ 55"
    by (simp_all only: st, simp_all only: LngLat.simps binary64_millionth binary64_tenth)
  have g: "offset ?options = offset (readme_options binary64)"
    "opacity ?options = opacity (readme_options binary64)"
    "dataGrid ?options = dataGrid (readme_options binary64)"
    "getColor ?options = getColor (readme_options binary64)"
    by simp_all
  have v: "verifyOptions ?options = Inr ()"
    unfolding verifyOptions_def
    by (simp only: f g readme_fields)
       (simp add: rowLengthMatches_def rowDefined_def grid_def array_def elem_def)
  have c: "mapA (rowColors (getColor ?options)) (dataGrid ?options) = Inr (array (map array ?cs))"
    by (simp only: g readme_colorGrid)
  have n: "binary64 (lat (offset ?options)
      + binary64 (real (y \<lparr>x = 3, y = 3::nat\<rparr>) * lat (stepSize ?options)))
      = 4227754150194053 / 2 ^ 46"
    by (simp only: f g readme_fields vec2.simps binary64_three_steps binary64_north)
  have loop: "latStepsLoop binary64 (fromLngLat_mapbox binary64) (4227754150194053 / 2 ^ 46)
      (lat (offset ?options)) (lat (stepSize ?options)) []
      = Some (Inr [binary64 (y (webMercator \<lparr>lng = 0, lat = 4227754150194053 / 2 ^ 46\<rparr>)),
           binary64 (y (webMercator \<lparr>lng = 0, lat = 8441434551552573 / 2 ^ 47\<rparr>)),
           binary64 (y (webMercator \<lparr>lng = 0, lat = 526710050169815 / 2 ^ 43\<rparr>))])"
    by (simp only: f g readme_fields latStepsLoop_readme append_Nil)
  from createLayer_mapbox [OF v c readme_gridDimensions n _ _ loop] obtain layer where
    l: "createLayer binary64 (fromLngLat_mapbox binary64) ?options = Some (Inr layer)"
    and cg: "colorGrid layer = array (map array ?cs)"
    and gs: "gridSize layer = \<lparr>x = 3, y = 3\<rparr>"
    and ls: "lngStepMercator layer =
         binary64 (binary64 (binary64 (180 + binary64 (lng (offset ?options) + lng (stepSize ?options))) / 360)
              - binary64 (binary64 (180 + lng (offset ?options)) / 360))"
    and tl: "x (topLeft (dataBoundsMercator layer)) = binary64 (binary64 (180 + lng (offset ?options)) / 360)"
    by auto
  have ls': "lngStepMercator layer = 12509999 / 2 ^ 52"
    unfolding ls
    by (simp only: f g readme_fields binary64_east binary64_east_180 binary64_east_x
          binary64_west_180 binary64_west_x binary64_width)
  have tl': "x (topLeft (dataBoundsMercator layer)) = 2384405802713379 / 2 ^ 52"
    unfolding tl
    by (simp only: g readme_fields binary64_west_180 binary64_west_x)
  have "\<exists>u. render binary64 float32 (fromLngLat_mapbox binary64) layer ?viewport \<lparr>x = 800, y = 600\<rparr> = Inr u
    \<and> u_lngMercatorStep u = float32 (lngStepMercator layer)
    \<and> x (u_dataBoundsMercatorMin u) = float32 (x (topLeft (dataBoundsMercator layer)))
    \<and> u_latMercatorSteps u = map float32 (latStepsMercator layer)"
    by (rule render_mapbox) simp_all
  then obtain u where
    r: "render binary64 float32 (fromLngLat_mapbox binary64) layer ?viewport \<lparr>x = 800, y = 600\<rparr> = Inr u"
    and us: "u_lngMercatorStep u = float32 (lngStepMercator layer)"
    and um: "x (u_dataBoundsMercatorMin u) = float32 (x (topLeft (dataBoundsMercator layer)))"
    by blast
  have us': "u_lngMercatorStep u = 12509999 / 2 ^ 52"
    unfolding us by (simp only: ls' float32_width)
  have um': "x (u_dataBoundsMercatorMin u) = 2220651 / 2 ^ 22"
    unfolding um by (simp only: tl' float32_west_x)
  have xc: "x (webMercator (cellCenter ?options 1 2))
      = (180 + (5967269506265907 / 2 ^ 49 + (real 1 + 1 / 2) * (4722366482869645 / 2 ^ 72))) / 360"
    unfolding webMercator_def cellCenter_def
    by (simp only: vec2.simps LngLat.simps f g readme_fields)
  have li: "lngIndex u (webMercator (cellCenter ?options 1 2)) = - 3"
    unfolding lngIndex_def
    by (simp only: xc us' um') (simp add: floor_eq_iff)
  have data: "gridData (colorGrid layer)
      = Inr [0, 255, 0, 255, 0, 0, 255, 255, 0, 0, 255, 255,
             255, 0, 0, 255, 0, 255, 0, 255, 0, 0, 255, 255,
             255, 0, 0, 255, 255, 0, 0, 255, 0, 255, 0, 255]"
    unfolding cg
    by (simp add: gridData_def flat_def transposed_def elem_def present_def spreadItem_def
          Uint8Array_def array_def upt_rec)
  let ?data = "[0, 255, 0, 255, 0, 0, 255, 255, 0, 0, 255, 255,
             255, 0, 0, 255, 0, 255, 0, 255, 0, 0, 255, 255,
             255, 0, 0, 255, 255, 0, 0, 255, 0, 255, 0, 255] :: 8 word list"
  let ?tc = "texCoords (length (latStepsMercator layer)) 3 3 u (webMercator (cellCenter ?options 1 2))"
  define row where "row = texelIndex 3 (y ?tc)"
  have col: "texelIndex 3 (x ?tc) = 0"
    by (simp only: texCoords_def vec2.simps li) (simp add: texelIndex_def)
  have "row < 3" unfolding row_def by (rule texelIndex_less) simp
  then have "row = 0 \<or> row = 1 \<or> row = 2" by auto
  then have ne: "texel 3 ?data 0 row \<noteq> Uint8Array (rgba_items (getColor (readme_options binary64) 3))"
    by (auto simp: texel_def Uint8Array_def readme_options_def)
  have t: "texture2D 3 3 ?data ?tc = texel 3 ?data 0 row"
    unfolding texture2D_def row_def by (simp only: col)
  have "texture2D 3 3 ?data ?tc \<noteq> Uint8Array (rgba_items (getColor (readme_options binary64) 3))"
    unfolding t by (rule ne)
  with l gs r data li show ?thesis by blast
qed

end
